theory Spec2Isabelle
  imports
    Complex_Main
    "HOL-Library.Char_ord"
    "HOL-Library.List_Lexorder"
    "HOL-Library.Multiset"
begin

chapter \<open>The model\<close>

section \<open>JavaScript values used by the gateway\<close>

text \<open>
  Strings are lists of code units; the model covers code units below 256, so a
  JavaScript string is an Isabelle \<open>string\<close>, \<open>length\<close> is the \<open>.length\<close> of the
  source, and the default \<open>Array.prototype.sort\<close> (code-unit lexicographic order, a
  proper prefix first) is \<open>sort\<close> on \<open>string\<close>.  Numbers are rationals: every
  arithmetic fact used below is about constants, comparisons and rounding.
\<close>

definition digit_char :: "nat \<Rightarrow> char" where
  "digit_char d = char_of (48 + d)"

fun show_nat_fuel :: "nat \<Rightarrow> nat \<Rightarrow> string" where
  "show_nat_fuel 0 n = [digit_char (n mod 10)]"
| "show_nat_fuel (Suc f) n =
     (if n < 10 then [digit_char n] else show_nat_fuel f (n div 10) @ [digit_char (n mod 10)])"

definition show_nat :: "nat \<Rightarrow> string" where
  "show_nat n = show_nat_fuel n n"

definition show_int :: "int \<Rightarrow> string" where
  "show_int i = (if i < 0 then CHR ''-'' # show_nat (nat (- i)) else show_nat (nat i))"

fun join :: "string \<Rightarrow> string list \<Rightarrow> string" where
  "join sep [] = []"
| "join sep [x] = x"
| "join sep (x # y # ys) = x @ sep @ join sep (y # ys)"

definition substring0 :: "nat \<Rightarrow> string \<Rightarrow> string" where
  "substring0 n s = take n s"

text \<open>\<open>toLowerCase\<close> and \<open>toUpperCase\<close> on code units below 256 (the letters of
  Latin-1): \<open>A\<close>..\<open>Z\<close> and \<open>0xC0\<close>..\<open>0xDE\<close> without \<open>0xD7\<close> have a lower-case
  partner 32 places up.  \<open>toUpperCase\<close> is only used to look a country code up in a
  table of ASCII keys; no string with a code unit above 127 upper-cases to one of those
  keys, so such code units are left as they are.\<close>

definition lower_char :: "char \<Rightarrow> char" where
  "lower_char c =
     (let n = (of_char c :: nat)
      in if (65 \<le> n \<and> n \<le> 90) \<or> (192 \<le> n \<and> n \<le> 222 \<and> n \<noteq> 215)
         then char_of (n + 32) else c)"

definition toLowerCase :: "string \<Rightarrow> string" where
  "toLowerCase s = map lower_char s"

definition upper_char :: "char \<Rightarrow> char" where
  "upper_char c =
     (let n = (of_char c :: nat)
      in if 97 \<le> n \<and> n \<le> 122 then char_of (n - 32) else c)"

definition toUpperCase :: "string \<Rightarrow> string" where
  "toUpperCase s = map upper_char s"

text \<open>\<open>String.prototype.includes\<close>.\<close>

fun includes_string :: "string \<Rightarrow> string \<Rightarrow> bool" where
  "includes_string [] needle = (needle = [])"
| "includes_string (c # cs) needle =
     (take (length needle) (c # cs) = needle \<or> includes_string cs needle)"

definition padStart2 :: "string \<Rightarrow> string" where
  "padStart2 s = replicate (2 - length s) CHR ''0'' @ s"

definition Math_round :: "rat \<Rightarrow> int" where
  "Math_round x = \<lfloor>x + 1 / 2\<rfloor>"

section \<open>The unified keyword provider (provider cascade)\<close>

datatype source_tag = dataforseo | ahrefs | mock | unavailable

record trend_point =
  tp_month :: string
  tp_volume :: rat

record UnifiedKeywordData =
  keyword :: string
  volume :: "rat option"
  difficulty :: "rat option"
  cpc :: "rat option"
  competition :: "rat option"
  trend :: "trend_point list option"
  source :: source_tag
  confidence :: rat

text \<open>An \<open>ApiResponse\<close> as the provider reads it: the \<open>success\<close> flag and the
  \<open>data\<close> field, absent when \<open>null\<close> or \<open>undefined\<close>.  An awaited client call either
  rejects (\<open>Inl\<close> with the error's message) or resolves to a response.\<close>

record 'a ApiResponse =
  success :: bool
  data :: "'a option"

type_synonym 'a call_result = "string + 'a ApiResponse"

text \<open>The raw DataForSEO item (\<open>rawData: any\<close>): the fields
  \<open>normalizeDataForSEOData\<close> reads.  \<open>keyword_info\<close> may be absent, in which case
  the metric fields are read from the item itself (\<open>dfs_own\<close>).\<close>

record monthly_search =
  ms_year :: int
  ms_month :: int
  ms_search_volume :: rat

record dfs_info =
  search_volume :: "rat option"
  info_cpc :: "rat option"
  info_competition :: "rat option"
  monthly_searches :: "monthly_search list option"

record dfs_raw =
  dfs_keyword :: "string option"
  keyword_info :: "dfs_info option"
  dfs_own :: dfs_info
  keyword_difficulty :: "rat option"

text \<open>The raw Ahrefs item: the fields \<open>normalizeAhrefsData\<close> reads.\<close>

record ahrefs_raw =
  ah_keyword :: "string option"
  ah_volume :: "rat option"
  ah_search_volume :: "rat option"
  ah_difficulty :: "rat option"
  ah_keyword_difficulty :: "rat option"
  ah_cpc :: "rat option"
  ah_traffic_potential :: "rat option"
  ah_trend :: "trend_point list option"

text \<open>\<open>a || b\<close> on strings (the empty string is falsy) and \<open>a ?? b\<close>.\<close>

definition or_string :: "string option \<Rightarrow> string \<Rightarrow> string" where
  "or_string a b = (case a of None \<Rightarrow> b | Some s \<Rightarrow> if s = [] then b else s)"

definition nullish :: "'a option \<Rightarrow> 'a option \<Rightarrow> 'a option" where
  "nullish a b = (case a of None \<Rightarrow> b | Some x \<Rightarrow> Some x)"

definition normalizeDataForSEOData :: "dfs_raw \<Rightarrow> UnifiedKeywordData" where
  "normalizeDataForSEOData rawData =
     (let keywordInfo = (case keyword_info rawData of Some i \<Rightarrow> i | None \<Rightarrow> dfs_own rawData)
      in \<lparr> keyword = or_string (dfs_keyword rawData) [],
           volume = search_volume keywordInfo,
           difficulty = keyword_difficulty rawData,
           cpc = info_cpc keywordInfo,
           competition =
             (case info_competition keywordInfo of
                Some c \<Rightarrow> Some (of_int (Math_round (c * 100)))
              | None \<Rightarrow> None),
           trend =
             (case monthly_searches keywordInfo of
                Some ms \<Rightarrow>
                  Some (map (\<lambda>m. \<lparr> tp_month = show_int (ms_year m) @ ''-'' @ padStart2 (show_int (ms_month m)),
                                    tp_volume = ms_search_volume m \<rparr>) ms)
              | None \<Rightarrow> None),
           source = dataforseo,
           confidence = 95 / 100 \<rparr>)"

definition normalizeAhrefsData :: "ahrefs_raw \<Rightarrow> UnifiedKeywordData" where
  "normalizeAhrefsData rawData =
     \<lparr> keyword = or_string (ah_keyword rawData) [],
       volume = nullish (ah_volume rawData) (ah_search_volume rawData),
       difficulty = nullish (ah_difficulty rawData) (ah_keyword_difficulty rawData),
       cpc = ah_cpc rawData,
       competition =
         (case ah_traffic_potential rawData of
            Some t \<Rightarrow> if t \<noteq> 0 then Some (min (t / 1000 * 100) 100) else None
          | None \<Rightarrow> None),
       trend = ah_trend rawData,
       source = ahrefs,
       confidence = 9 / 10 \<rparr>"

text \<open>\<open>Math.random()\<close> is a supply \<open>rnd\<close> of numbers in \<open>[0, 1)\<close>, read by position:
  \<open>getMockKeywordData\<close> draws 17 numbers (four for the metrics, then
  \<open>generateMockTrend\<close>: one base volume and one per month).\<close>

definition months :: "string list" where
  "months = [''Jan'', ''Feb'', ''Mar'', ''Apr'', ''May'', ''Jun'',
             ''Jul'', ''Aug'', ''Sep'', ''Oct'', ''Nov'', ''Dec'']"

definition generateMockTrend :: "(nat \<Rightarrow> rat) \<Rightarrow> nat \<Rightarrow> trend_point list" where
  "generateMockTrend rnd k =
     (let baseVolume = 1000 + rnd k * 5000
      in map (\<lambda>(i, m). \<lparr> tp_month = m,
                          tp_volume = of_int \<lfloor>baseVolume + (rnd (k + 1 + i) - 1 / 2) * 1000\<rfloor> \<rparr>)
             (zip [0 ..< 12] months))"

definition getMockKeywordData :: "(nat \<Rightarrow> rat) \<Rightarrow> nat \<Rightarrow> string \<Rightarrow> UnifiedKeywordData" where
  "getMockKeywordData rnd k kw =
     (let baseVolume = of_nat (length kw) * 1000 + rnd k * 5000;
          difficulty = of_int \<lfloor>rnd (k + 1) * 100\<rfloor>
      in \<lparr> keyword = kw,
           volume = Some (of_int \<lfloor>baseVolume\<rfloor>),
           difficulty = Some difficulty,
           cpc = Some (of_int (Math_round ((rnd (k + 2) * 5 + 1 / 2) * 100)) / 100),
           competition = Some (of_int \<lfloor>rnd (k + 3) * 100\<rfloor>),
           trend = Some (generateMockTrend rnd (k + 4)),
           source = mock,
           confidence = 1 / 2 \<rparr>)"

definition mock_all :: "(nat \<Rightarrow> rat) \<Rightarrow> string list \<Rightarrow> UnifiedKeywordData list" where
  "mock_all rnd keywords =
     map (\<lambda>(i, kw). getMockKeywordData rnd (17 * i) kw) (zip [0 ..< length keywords] keywords)"

definition DATAFORSEO_LOCATIONS :: "(string \<times> int) list" where
  "DATAFORSEO_LOCATIONS =
     [(''US'', 2840), (''UK'', 2826), (''CA'', 2124), (''AU'', 2036), (''DE'', 2276),
      (''FR'', 2250), (''ES'', 2724), (''IT'', 2380), (''NL'', 2528), (''BR'', 2076),
      (''IN'', 2356), (''JP'', 2392)]"

definition getLocationCode :: "string \<Rightarrow> int" where
  "getLocationCode country =
     (case map_of ((''GB'', 2826) # DATAFORSEO_LOCATIONS) (toUpperCase country) of
        Some c \<Rightarrow> c
      | None \<Rightarrow> 2840)"

text \<open>The provider object: the mock-mode flag of its configuration and its two
  clients, each \<open>null\<close> (\<open>None\<close>) or an object whose bulk method is a function from the
  call's arguments to the awaited result.  \<open>initializeProviders\<close> sets at most one of
  the two clients.  The bulk method of the Ahrefs client also gives the keyword array as
  the call leaves it: \<open>AhrefsClient.getKeywordMetrics\<close> sorts the array of its request
  in place, and that is the array \<open>getBulkKeywordMetrics\<close> maps over afterwards.\<close>

record AhrefsClient_methods =
  getKeywordMetrics_call :: "string list \<Rightarrow> string \<Rightarrow> ahrefs_raw list call_result \<times> string list"
  getKeywordOverview_call :: "string \<Rightarrow> string \<Rightarrow> ahrefs_raw call_result"

record KeywordProvider =
  mockMode :: bool
  dataForSEOClient :: "(string list \<Rightarrow> int \<Rightarrow> string \<Rightarrow> dfs_raw list call_result) option"
  ahrefsClient :: "AhrefsClient_methods option"

record bulk_options =
  opt_location :: "string option"
  opt_language :: "string option"

definition unavailable_record :: "string \<Rightarrow> UnifiedKeywordData" where
  "unavailable_record k =
     \<lparr> keyword = k, volume = None, difficulty = None, cpc = None, competition = None,
       trend = None, source = unavailable, confidence = 0 \<rparr>"

text \<open>The DataForSEO branch of \<open>getBulkKeywordMetrics\<close>: \<open>Some\<close> of the returned list
  when the call resolved with \<open>success\<close> and \<open>data\<close>, \<open>None\<close> when the branch is left
  (no client, a rejected call, or a response without success or data).\<close>

definition bulk_dataforseo ::
  "KeywordProvider \<Rightarrow> string list \<Rightarrow> bulk_options \<Rightarrow> UnifiedKeywordData list option" where
  "bulk_dataforseo kp keywords options =
     (case dataForSEOClient kp of
        None \<Rightarrow> None
      | Some getKeywordData \<Rightarrow>
          (let locationCode = getLocationCode (or_string (opt_location options) ''US'')
           in case getKeywordData keywords locationCode (or_string (opt_language options) ''en'') of
                Inl err \<Rightarrow> None
              | Inr result \<Rightarrow>
                  (case (success result, data result) of
                     (True, Some d) \<Rightarrow>
                       (let enriched = map normalizeDataForSEOData d;
                            enrichedKeywords = set (map (\<lambda>k. toLowerCase (keyword k)) enriched);
                            missing = filter (\<lambda>k. toLowerCase k \<notin> enrichedKeywords) keywords;
                            unavailableKeywords = map unavailable_record missing
                        in Some (enriched @ unavailableKeywords))
                   | _ \<Rightarrow> None)))"

text \<open>The Ahrefs branch, with the keyword array after the call.\<close>

definition bulk_ahrefs ::
  "KeywordProvider \<Rightarrow> string list \<Rightarrow> bulk_options \<Rightarrow>
   UnifiedKeywordData list option \<times> string list" where
  "bulk_ahrefs kp keywords options =
     (case ahrefsClient kp of
        None \<Rightarrow> (None, keywords)
      | Some client \<Rightarrow>
          (case getKeywordMetrics_call client keywords (or_string (opt_location options) ''US'') of
             (Inl err, keywords') \<Rightarrow> (None, keywords')
           | (Inr result, keywords') \<Rightarrow>
               (case (success result, data result) of
                  (True, Some d) \<Rightarrow> (Some (map normalizeAhrefsData d), keywords')
                | _ \<Rightarrow> (None, keywords'))))"

definition getBulkKeywordMetrics ::
  "KeywordProvider \<Rightarrow> (nat \<Rightarrow> rat) \<Rightarrow> string list \<Rightarrow> bulk_options \<Rightarrow> UnifiedKeywordData list" where
  "getBulkKeywordMetrics kp rnd keywords options =
     (if mockMode kp \<or> keywords = [] then mock_all rnd keywords
      else case bulk_dataforseo kp keywords options of
             Some out \<Rightarrow> out
           | None \<Rightarrow>
               (case bulk_ahrefs kp keywords options of
                  (Some out, keywords') \<Rightarrow> out
                | (None, keywords') \<Rightarrow> mock_all rnd keywords'))"


text \<open>\<open>getKeywordMetrics\<close> for one keyword: the same cascade, reading the first
  item of the DataForSEO answer and the Ahrefs overview.\<close>

definition getKeywordMetrics ::
  "KeywordProvider \<Rightarrow> (nat \<Rightarrow> rat) \<Rightarrow> string \<Rightarrow> bulk_options \<Rightarrow> UnifiedKeywordData" where
  "getKeywordMetrics kp rnd kw options =
     (if mockMode kp then getMockKeywordData rnd 0 kw
      else
        (let fromDataForSEO =
               (case dataForSEOClient kp of
                  None \<Rightarrow> None
                | Some getKeywordData \<Rightarrow>
                    (case getKeywordData [kw] (getLocationCode (or_string (opt_location options) ''US''))
                            (or_string (opt_language options) ''en'') of
                       Inl err \<Rightarrow> None
                     | Inr result \<Rightarrow>
                         (case (success result, data result) of
                            (True, Some (d # ds)) \<Rightarrow> Some (normalizeDataForSEOData d)
                          | _ \<Rightarrow> None)));
             fromAhrefs =
               (case ahrefsClient kp of
                  None \<Rightarrow> None
                | Some client \<Rightarrow>
                    (case getKeywordOverview_call client kw (or_string (opt_location options) ''US'') of
                       Inl err \<Rightarrow> None
                     | Inr result \<Rightarrow>
                         (case (success result, data result) of
                            (True, Some d) \<Rightarrow> Some (normalizeAhrefsData d)
                          | _ \<Rightarrow> None)))
         in case fromDataForSEO of
              Some r \<Rightarrow> r
            | None \<Rightarrow> (case fromAhrefs of Some r \<Rightarrow> r | None \<Rightarrow> getMockKeywordData rnd 0 kw)))"

subsection \<open>Predicates on the cascade\<close>

text \<open>The invariant of a unified record: an unavailable record carries no metric and
  no confidence, and every confidence lies in \<open>[0, 1]\<close>.\<close>

definition record_invariant :: "UnifiedKeywordData \<Rightarrow> bool" where
  "record_invariant r =
     ((source r = unavailable \<longrightarrow>
         volume r = None \<and> difficulty r = None \<and> cpc r = None \<and> competition r = None \<and>
         trend r = None \<and> confidence r = 0) \<and>
      0 \<le> confidence r \<and> confidence r \<le> 1)"

text \<open>The call to a provider answered: the client is set, the awaited call resolved,
  and the response has \<open>success\<close> and \<open>data\<close>.\<close>

definition dataforseo_answered :: "KeywordProvider \<Rightarrow> string list \<Rightarrow> bulk_options \<Rightarrow> bool" where
  "dataforseo_answered kp keywords options =
     (case dataForSEOClient kp of
        None \<Rightarrow> False
      | Some getKeywordData \<Rightarrow>
          (case getKeywordData keywords (getLocationCode (or_string (opt_location options) ''US''))
                  (or_string (opt_language options) ''en'') of
             Inl err \<Rightarrow> False
           | Inr result \<Rightarrow> success result \<and> data result \<noteq> None))"

definition ahrefs_answered :: "KeywordProvider \<Rightarrow> string list \<Rightarrow> bulk_options \<Rightarrow> bool" where
  "ahrefs_answered kp keywords options =
     (case ahrefsClient kp of
        None \<Rightarrow> False
      | Some client \<Rightarrow>
          (case fst (getKeywordMetrics_call client keywords (or_string (opt_location options) ''US'')) of
             Inl err \<Rightarrow> False
           | Inr result \<Rightarrow> success result \<and> data result \<noteq> None))"

text \<open>A provider was configured and queried: not in mock mode, a non-empty batch, and
  a client set.\<close>

definition provider_queried :: "KeywordProvider \<Rightarrow> string list \<Rightarrow> bool" where
  "provider_queried kp keywords =
     (\<not> mockMode kp \<and> keywords \<noteq> [] \<and> (dataForSEOClient kp \<noteq> None \<or> ahrefsClient kp \<noteq> None))"

section \<open>\<open>JSON.parse\<close>\<close>

text \<open>The built-ins of the language that \<open>makeLLMRequest\<close> calls.  A string is the
  list of its code units, all below 256 here; \<open>String.prototype.trim\<close> removes the
  white space of the language at both ends.\<close>

definition is_js_space :: "char \<Rightarrow> bool" where
  "is_js_space c = (of_char c \<in> {9, 10, 11, 12, 13, 32, 160 :: nat})"

definition trim :: "string \<Rightarrow> string" where
  "trim s = dropWhile is_js_space (rev (dropWhile is_js_space (rev s)))"

text \<open>\<open>JSON.parse\<close> as a recursive-descent parser of the JSON grammar.  A number and
  a string are kept as their lexemes (a string as the text between its quotes): the
  number of a lexeme decides its truthiness and the code units of a string lexeme decide
  which key it is, and both are read from the lexeme below.  An object keeps its members
  in the order of the text, a later duplicate of a key after the earlier one.\<close>

datatype json =
    JNull
  | JBool bool
  | JNumber string
  | JString string
  | JArray "json list"
  | JObject "(string \<times> json) list"

definition is_json_ws :: "char \<Rightarrow> bool" where
  "is_json_ws c = (c = CHR '' '' \<or> c = CHR 0x09 \<or> c = CHR 0x0A \<or> c = CHR 0x0D)"

definition skip_ws :: "string \<Rightarrow> string" where
  "skip_ws s = dropWhile is_json_ws s"

definition is_digit :: "char \<Rightarrow> bool" where
  "is_digit c = (CHR ''0'' \<le> c \<and> c \<le> CHR ''9'')"

definition hex_value :: "char \<Rightarrow> nat option" where
  "hex_value c =
     (let n = (of_char c :: nat)
      in if 48 \<le> n \<and> n \<le> 57 then Some (n - 48)
         else if 65 \<le> n \<and> n \<le> 70 then Some (n - 55)
         else if 97 \<le> n \<and> n \<le> 102 then Some (n - 87)
         else None)"

definition unescape :: "char \<Rightarrow> char option" where
  "unescape e =
     (if e = CHR 0x22 then Some (CHR 0x22)
      else if e = CHR 0x5C then Some (CHR 0x5C)
      else if e = CHR ''/'' then Some (CHR ''/'')
      else if e = CHR ''b'' then Some (CHR 0x08)
      else if e = CHR ''f'' then Some (CHR 0x0C)
      else if e = CHR ''n'' then Some (CHR 0x0A)
      else if e = CHR ''r'' then Some (CHR 0x0D)
      else if e = CHR ''t'' then Some (CHR 0x09)
      else None)"

definition unicode_escape :: "char \<Rightarrow> char \<Rightarrow> char \<Rightarrow> char \<Rightarrow> bool" where
  "unicode_escape a b c d =
     (hex_value a \<noteq> None \<and> hex_value b \<noteq> None \<and> hex_value c \<noteq> None \<and> hex_value d \<noteq> None)"

text \<open>The characters of a string up to its closing quote: the lexeme, with its escapes
  as they are written, and the rest of the text.\<close>

fun parse_string_chars :: "string \<Rightarrow> (string \<times> string) option" where
  "parse_string_chars [] = None"
| "parse_string_chars (c # cs) =
     (if c = CHR 0x22 then Some ([], cs)
      else if c = CHR 0x5C then
        (case cs of
           [] \<Rightarrow> None
         | e # cs' \<Rightarrow>
             if e = CHR ''u'' then
               (case cs' of
                  a # b # c' # d # cs'' \<Rightarrow>
                    if unicode_escape a b c' d then
                      (case parse_string_chars cs'' of
                         None \<Rightarrow> None
                       | Some (s, r) \<Rightarrow> Some (c # e # a # b # c' # d # s, r))
                    else None
                | _ \<Rightarrow> None)
             else
               (case unescape e of
                  None \<Rightarrow> None
                | Some ch \<Rightarrow>
                    (case parse_string_chars cs' of
                       None \<Rightarrow> None
                     | Some (s, r) \<Rightarrow> Some (c # e # s, r))))
      else if (of_char c :: nat) < 32 then None
      else (case parse_string_chars cs of
              None \<Rightarrow> None
            | Some (s, r) \<Rightarrow> Some (c # s, r)))"

text \<open>The code units that a string lexeme denotes: a character stands for itself, a
  simple escape for its character, and a unicode escape for the code unit of its four
  hexadecimal digits.\<close>

definition hex_digit :: "char \<Rightarrow> nat" where
  "hex_digit c = (case hex_value c of Some h \<Rightarrow> h | None \<Rightarrow> 0)"

fun string_value :: "string \<Rightarrow> nat list" where
  "string_value [] = []"
| "string_value (c # cs) =
     (if c = CHR 0x5C then
        (case cs of
           [] \<Rightarrow> []
         | e # cs' \<Rightarrow>
             if e = CHR ''u'' then
               (case cs' of
                  a # b # c' # d # cs'' \<Rightarrow>
                    (hex_digit a * 4096 + hex_digit b * 256 + hex_digit c' * 16 + hex_digit d)
                      # string_value cs''
                | _ \<Rightarrow> [])
             else of_char (case unescape e of Some ch \<Rightarrow> ch | None \<Rightarrow> e) # string_value cs')
      else of_char c # string_value cs)"

definition parse_digits :: "string \<Rightarrow> (string \<times> string) option" where
  "parse_digits s =
     (let ds = takeWhile is_digit s in if ds = [] then None else Some (ds, dropWhile is_digit s))"

definition parse_int_part :: "string \<Rightarrow> (string \<times> string) option" where
  "parse_int_part s =
     (case s of
        [] \<Rightarrow> None
      | c # cs \<Rightarrow> if c = CHR ''0'' then Some ([c], cs) else parse_digits s)"

definition parse_frac_part :: "string \<Rightarrow> (string \<times> string) option" where
  "parse_frac_part s =
     (case s of
        c # cs \<Rightarrow>
          if c = CHR ''.'' then
            (case parse_digits cs of None \<Rightarrow> None | Some (ds, r) \<Rightarrow> Some (c # ds, r))
          else Some ([], s)
      | [] \<Rightarrow> Some ([], s))"

definition parse_exp_part :: "string \<Rightarrow> (string \<times> string) option" where
  "parse_exp_part s =
     (case s of
        c # cs \<Rightarrow>
          if c = CHR ''e'' \<or> c = CHR ''E'' then
            (case cs of
               sg # cs' \<Rightarrow>
                 if sg = CHR ''+'' \<or> sg = CHR ''-'' then
                   (case parse_digits cs' of None \<Rightarrow> None | Some (ds, r) \<Rightarrow> Some (c # sg # ds, r))
                 else (case parse_digits cs of None \<Rightarrow> None | Some (ds, r) \<Rightarrow> Some (c # ds, r))
             | [] \<Rightarrow> None)
          else Some ([], s)
      | [] \<Rightarrow> Some ([], s))"

definition parse_number :: "string \<Rightarrow> (string \<times> string) option" where
  "parse_number s =
     (let (sign, s1) = (case s of c # cs \<Rightarrow> if c = CHR ''-'' then ([c], cs) else ([], s) | [] \<Rightarrow> ([], s))
      in case parse_int_part s1 of
           None \<Rightarrow> None
         | Some (ip, s2) \<Rightarrow>
             (case parse_frac_part s2 of
                None \<Rightarrow> None
              | Some (fp, s3) \<Rightarrow>
                  (case parse_exp_part s3 of
                     None \<Rightarrow> None
                   | Some (ep, s4) \<Rightarrow> Some (sign @ ip @ fp @ ep, s4))))"

definition parse_literal :: "string \<Rightarrow> (json \<times> string) option" where
  "parse_literal s =
     (if take 4 s = ''true'' then Some (JBool True, drop 4 s)
      else if take 5 s = ''false'' then Some (JBool False, drop 5 s)
      else if take 4 s = ''null'' then Some (JNull, drop 4 s)
      else (case parse_number s of None \<Rightarrow> None | Some (lx, r) \<Rightarrow> Some (JNumber lx, r)))"

fun parse_value :: "nat \<Rightarrow> string \<Rightarrow> (json \<times> string) option"
and parse_elems :: "nat \<Rightarrow> string \<Rightarrow> (json list \<times> string) option"
and parse_members :: "nat \<Rightarrow> string \<Rightarrow> ((string \<times> json) list \<times> string) option" where
  "parse_value 0 s = None"
| "parse_value (Suc n) s =
     (case skip_ws s of
        [] \<Rightarrow> None
      | c # cs \<Rightarrow>
          if c = CHR ''{'' then
            (case skip_ws cs of
               [] \<Rightarrow> None
             | d # ds \<Rightarrow>
                 if d = CHR ''}'' then Some (JObject [], ds)
                 else (case parse_members n cs of
                         None \<Rightarrow> None
                       | Some (kvs, r) \<Rightarrow> Some (JObject kvs, r)))
          else if c = CHR ''['' then
            (case skip_ws cs of
               [] \<Rightarrow> None
             | d # ds \<Rightarrow>
                 if d = CHR '']'' then Some (JArray [], ds)
                 else (case parse_elems n cs of
                         None \<Rightarrow> None
                       | Some (vs, r) \<Rightarrow> Some (JArray vs, r)))
          else if c = CHR 0x22 then
            (case parse_string_chars cs of
               None \<Rightarrow> None
             | Some (str, r) \<Rightarrow> Some (JString str, r))
          else parse_literal (c # cs))"
| "parse_elems 0 s = None"
| "parse_elems (Suc n) s =
     (case parse_value n s of
        None \<Rightarrow> None
      | Some (v, r) \<Rightarrow>
          (case skip_ws r of
             [] \<Rightarrow> None
           | c # cs \<Rightarrow>
               if c = CHR '','' then
                 (case parse_elems n cs of
                    None \<Rightarrow> None
                  | Some (vs, r') \<Rightarrow> Some (v # vs, r'))
               else if c = CHR '']'' then Some ([v], cs)
               else None))"
| "parse_members 0 s = None"
| "parse_members (Suc n) s =
     (case skip_ws s of
        [] \<Rightarrow> None
      | q # cs \<Rightarrow>
          if q = CHR 0x22 then
            (case parse_string_chars cs of
               None \<Rightarrow> None
             | Some (k, r) \<Rightarrow>
                 (case skip_ws r of
                    [] \<Rightarrow> None
                  | c # r1 \<Rightarrow>
                      if c = CHR '':'' then
                        (case parse_value n r1 of
                           None \<Rightarrow> None
                         | Some (v, r2) \<Rightarrow>
                             (case skip_ws r2 of
                                [] \<Rightarrow> None
                              | d # r3 \<Rightarrow>
                                  if d = CHR '','' then
                                    (case parse_members n r3 of
                                       None \<Rightarrow> None
                                     | Some (kvs, r4) \<Rightarrow> Some ((k, v) # kvs, r4))
                                  else if d = CHR ''}'' then Some ([(k, v)], r3)
                                  else None))
                      else None))
          else None)"

text \<open>The recursion budget is twice the length of the text and two more; a parse
  needs no more steps than it consumes characters (\<open>parser_fuel\<close> below).\<close>

definition JSON_parse :: "string \<Rightarrow> json option" where
  "JSON_parse s =
     (case parse_value (2 * length s + 2) s of
        None \<Rightarrow> None
      | Some (v, r) \<Rightarrow> if skip_ws r = [] then Some v else None)"


section \<open>The tolerant JSON extractor\<close>

text \<open>\<open>makeLLMRequest\<close>, from the text of the model to the parsed data.  The
  regular expression for a code block matches at the first fence of three backquotes
  and captures the rest of the text after an optional \<open>json\<close> and white space; the
  replacement of the closing fence removes the first fence that only white space
  follows, with that white space.\<close>

fun after_fence :: "string \<Rightarrow> string option" where
  "after_fence [] = None"
| "after_fence (c # cs) =
     (if take 3 (c # cs) = [CHR 0x60, CHR 0x60, CHR 0x60] then Some (drop 3 (c # cs))
      else after_fence cs)"

definition codeBlockMatch :: "string \<Rightarrow> string option" where
  "codeBlockMatch t =
     (case after_fence t of
        None \<Rightarrow> None
      | Some r \<Rightarrow> Some (dropWhile is_js_space (if take 4 r = ''json'' then drop 4 r else r)))"

fun strip_trailing_fence :: "string \<Rightarrow> string" where
  "strip_trailing_fence [] = []"
| "strip_trailing_fence (c # cs) =
     (if take 3 (c # cs) = [CHR 0x60, CHR 0x60, CHR 0x60] \<and> list_all is_js_space (drop 3 (c # cs))
      then [] else c # strip_trailing_fence cs)"

definition jsonText_of :: "string \<Rightarrow> string" where
  "jsonText_of t =
     (case codeBlockMatch t of
        Some g \<Rightarrow> trim (strip_trailing_fence g)
      | None \<Rightarrow> trim t)"

text \<open>\<open>findBalancedJSON\<close>: the loop counts every start and end character, also
  those inside quoted strings, and returns at the first end character that brings the
  depth to zero; with \<open>allowIncomplete\<close> an open structure is closed by appending the
  missing end characters.\<close>

record balance_state =
  fb_depth :: int
  fb_startIdx :: int

fun findBalanced_loop ::
  "string \<Rightarrow> char \<Rightarrow> char \<Rightarrow> nat \<Rightarrow> balance_state \<Rightarrow> string \<Rightarrow> string option \<times> balance_state" where
  "findBalanced_loop str startChar endChar i st [] = (None, st)"
| "findBalanced_loop str startChar endChar i st (c # cs) =
     (if c = startChar then
        findBalanced_loop str startChar endChar (i + 1)
          \<lparr> fb_depth = fb_depth st + 1,
            fb_startIdx = (if fb_depth st = 0 then int i else fb_startIdx st) \<rparr> cs
      else if c = endChar then
        (if fb_depth st - 1 = 0 \<and> fb_startIdx st \<noteq> - 1
         then (Some (take (i + 1 - nat (fb_startIdx st)) (drop (nat (fb_startIdx st)) str)),
               st \<lparr> fb_depth := fb_depth st - 1 \<rparr>)
         else findBalanced_loop str startChar endChar (i + 1) (st \<lparr> fb_depth := fb_depth st - 1 \<rparr>) cs)
      else findBalanced_loop str startChar endChar (i + 1) st cs)"

definition findBalancedJSON :: "string \<Rightarrow> char \<Rightarrow> char \<Rightarrow> bool \<Rightarrow> string option" where
  "findBalancedJSON str startChar endChar allowIncomplete =
     (case findBalanced_loop str startChar endChar 0 \<lparr> fb_depth = 0, fb_startIdx = - 1 \<rparr> str of
        (Some found, st) \<Rightarrow> Some found
      | (None, st) \<Rightarrow>
          if allowIncomplete \<and> fb_startIdx st \<noteq> - 1 \<and> fb_depth st > 0
          then Some (drop (nat (fb_startIdx st)) str @ replicate (nat (fb_depth st)) endChar)
          else None)"

text \<open>The scan for complete objects inside an array that did not parse: it tracks
  quoted strings and escapes, and collects every text from a brace at depth zero to the
  brace that closes it.\<close>

record salvage_state =
  objectMatches :: "string list"
  currentObject :: string
  braceDepth :: int
  inString :: bool
  escapeNext :: bool

definition salvage_step :: "salvage_state \<Rightarrow> char \<Rightarrow> salvage_state" where
  "salvage_step st c =
     (if escapeNext st then st \<lparr> currentObject := currentObject st @ [c], escapeNext := False \<rparr>
      else if c = CHR 0x5C then st \<lparr> escapeNext := True, currentObject := currentObject st @ [c] \<rparr>
      else if c = CHR 0x22 then
        st \<lparr> inString := \<not> inString st, currentObject := currentObject st @ [c] \<rparr>
      else if \<not> inString st then
        (if c = CHR ''{'' then
           st \<lparr> currentObject := (if braceDepth st = 0 then [c] else currentObject st @ [c]),
                braceDepth := braceDepth st + 1 \<rparr>
         else if c = CHR ''}'' then
           (if braceDepth st - 1 = 0
            then st \<lparr> objectMatches := objectMatches st @ [currentObject st @ [c]],
                      currentObject := [], braceDepth := 0 \<rparr>
            else st \<lparr> currentObject := currentObject st @ [c], braceDepth := braceDepth st - 1 \<rparr>)
         else if braceDepth st > 0 then st \<lparr> currentObject := currentObject st @ [c] \<rparr>
         else st)
      else st \<lparr> currentObject := currentObject st @ [c] \<rparr>)"

definition salvage_init :: salvage_state where
  "salvage_init =
     \<lparr> objectMatches = [], currentObject = [], braceDepth = 0, inString = False,
       escapeNext = False \<rparr>"

definition salvage_scan :: "string \<Rightarrow> string list" where
  "salvage_scan jsonArray = objectMatches (foldl salvage_step salvage_init jsonArray)"

text \<open>Reading a property of a parsed value: the member whose key denotes the code
  units of the name, the last one when the key is repeated; a value that is not an
  object has none of the properties read here.\<close>

fun property :: "json \<Rightarrow> string \<Rightarrow> json option" where
  "property (JObject kvs) k =
     map_of (rev (map (\<lambda>(key, v). (string_value key, v)) kvs)) (map of_char k)"
| "property v k = None"

text \<open>The number of a lexeme is its decimal value rounded to the nearest double; it is
  zero exactly when the decimal value is at most \<open>2 ^ -1075\<close> in magnitude, half of the
  least positive double.  The magnitude of a lexeme is \<open>mantissa * 10 ^ exponent\<close>.\<close>

definition digits_nat :: "string \<Rightarrow> nat" where
  "digits_nat ds = foldl (\<lambda>n c. 10 * n + (of_char c - 48)) 0 ds"

definition lexeme_mantissa :: "string \<Rightarrow> nat" where
  "lexeme_mantissa lx =
     (let u = (case lx of c # cs \<Rightarrow> if c = CHR ''-'' then cs else lx | [] \<Rightarrow> lx);
          r = dropWhile is_digit u
      in digits_nat (takeWhile is_digit u @
           (case r of c # cs \<Rightarrow> if c = CHR ''.'' then takeWhile is_digit cs else [] | [] \<Rightarrow> [])))"

definition lexeme_exponent :: "string \<Rightarrow> int" where
  "lexeme_exponent lx =
     (let u = (case lx of c # cs \<Rightarrow> if c = CHR ''-'' then cs else lx | [] \<Rightarrow> lx);
          r = dropWhile is_digit u;
          fp = (case r of c # cs \<Rightarrow> if c = CHR ''.'' then takeWhile is_digit cs else [] | [] \<Rightarrow> []);
          r' = (case r of c # cs \<Rightarrow> if c = CHR ''.'' then dropWhile is_digit cs else r | [] \<Rightarrow> r)
      in (case r' of
            c # cs \<Rightarrow>
              if c = CHR ''e'' \<or> c = CHR ''E'' then
                (case cs of
                   sg # ds \<Rightarrow>
                     if sg = CHR ''-'' then - int (digits_nat ds)
                     else if sg = CHR ''+'' then int (digits_nat ds)
                     else int (digits_nat cs)
                 | [] \<Rightarrow> 0)
              else 0
          | [] \<Rightarrow> 0) - int (length fp))"

definition zero_lexeme :: "string \<Rightarrow> bool" where
  "zero_lexeme lx =
     (if lexeme_mantissa lx = 0 then True
      else if 0 \<le> lexeme_exponent lx then False
      else lexeme_mantissa lx * 2 ^ 1075 \<le> 10 ^ nat (- lexeme_exponent lx))"

text \<open>Truthiness, and the filter \<open>obj !== null && obj.keyword\<close> on the parsed
  matches; a match that fails to parse is \<open>null\<close>.\<close>

fun truthy :: "json \<Rightarrow> bool" where
  "truthy JNull = False"
| "truthy (JBool b) = b"
| "truthy (JNumber lx) = (\<not> zero_lexeme lx)"
| "truthy (JString s) = (s \<noteq> [])"
| "truthy (JArray vs) = True"
| "truthy (JObject kvs) = True"

definition has_keyword :: "json option \<Rightarrow> bool" where
  "has_keyword obj =
     (case obj of
        None \<Rightarrow> False
      | Some v \<Rightarrow> (case property v ''keyword'' of None \<Rightarrow> False | Some k \<Rightarrow> truthy k))"

datatype parsed_data = ParsedJson json | ParsedText string

definition salvage_objects :: "string \<Rightarrow> string \<Rightarrow> parsed_data" where
  "salvage_objects t jsonArray =
     (let objectMatches = salvage_scan jsonArray
      in if objectMatches \<noteq> [] then
           (let completeObjects = filter has_keyword (map JSON_parse objectMatches)
            in if completeObjects \<noteq> [] then ParsedJson (JArray (map the completeObjects))
               else ParsedText t)
         else ParsedText t)"

definition extract_balanced :: "string \<Rightarrow> parsed_data" where
  "extract_balanced t =
     (let jsonArray =
            (case findBalancedJSON t CHR ''['' CHR '']'' False of
               Some a \<Rightarrow> Some a
             | None \<Rightarrow> findBalancedJSON t CHR ''['' CHR '']'' True)
      in case jsonArray of
           Some a \<Rightarrow>
             (case JSON_parse a of
                Some v \<Rightarrow> ParsedJson v
              | None \<Rightarrow> salvage_objects t a)
         | None \<Rightarrow>
             (case findBalancedJSON t CHR ''{'' CHR ''}'' False of
                Some obj \<Rightarrow> (case JSON_parse obj of Some v \<Rightarrow> ParsedJson v | None \<Rightarrow> ParsedText t)
              | None \<Rightarrow> ParsedText t))"

definition parse_response_text :: "string \<Rightarrow> parsed_data" where
  "parse_response_text t =
     (case JSON_parse (jsonText_of t) of
        Some v \<Rightarrow> ParsedJson v
      | None \<Rightarrow> extract_balanced t)"

section \<open>The provider adapter's reading of the parsed data\<close>

text \<open>\<open>GeminiLLMProviderAdapter.expandKeywords\<close> reads the \<open>keywords\<close> out of
  \<open>response.data\<close>: an array as it is, the \<open>keywords\<close> property of an object, and
  for a string the first balanced array (or object) found by its own
  \<open>findBalancedJSON\<close>, which is the three-argument form of the client's (no
  completion of an unbalanced text).  It then maps every element; a \<open>keywords\<close>
  value without \<open>map\<close> and a \<open>null\<close> element raise a \<open>TypeError\<close>.\<close>

record mapped_keyword =
  mk_keyword :: json
  mk_intent :: json
  mk_relevance_score :: json
  mk_reasoning :: "json option"

definition or_json :: "json option \<Rightarrow> json \<Rightarrow> json" where
  "or_json a b = (case a of None \<Rightarrow> b | Some v \<Rightarrow> if truthy v then v else b)"

definition adapter_string_keywords :: "string \<Rightarrow> json" where
  "adapter_string_keywords str =
     (case findBalancedJSON str CHR ''['' CHR '']'' False of
        Some jsonArray \<Rightarrow>
          (case JSON_parse jsonArray of
             Some (JArray vs) \<Rightarrow> JArray vs
           | _ \<Rightarrow> JArray [])
      | None \<Rightarrow>
          (case findBalancedJSON str CHR ''{'' CHR ''}'' False of
             Some jsonObject \<Rightarrow>
               (case JSON_parse jsonObject of
                  Some parsed \<Rightarrow> or_json (property parsed ''keywords'') (JArray [])
                | None \<Rightarrow> JArray [])
           | None \<Rightarrow> JArray []))"

text \<open>When the data is a string that \<open>JSON.parse\<close> produced, the adapter scans the
  text that its lexeme denotes.  The texts of this model have code units below 256; a
  string with a greater code unit has no text here (\<open>None\<close>), and the adapter's reading
  of it is outside the model.\<close>

definition string_text :: "string \<Rightarrow> string option" where
  "string_text s =
     (if list_all (\<lambda>u. u < 256) (string_value s) then Some (map char_of (string_value s))
      else None)"

fun adapter_keywords :: "parsed_data \<Rightarrow> json option" where
  "adapter_keywords (ParsedJson (JArray vs)) = Some (JArray vs)"
| "adapter_keywords (ParsedJson (JObject kvs)) =
     Some (or_json (property (JObject kvs) ''keywords'') (JArray []))"
| "adapter_keywords (ParsedJson (JString s)) =
     (case string_text s of Some t \<Rightarrow> Some (adapter_string_keywords t) | None \<Rightarrow> None)"
| "adapter_keywords (ParsedJson v) = Some (JArray [])"
| "adapter_keywords (ParsedText t) = Some (adapter_string_keywords t)"

definition map_keyword :: "json \<Rightarrow> string + mapped_keyword" where
  "map_keyword k =
     (if k = JNull then Inl ''TypeError''
      else Inr \<lparr> mk_keyword = or_json (property k ''keyword'')
                                 (or_json (property k ''keyword_name'') (JString [])),
                 mk_intent = or_json (property k ''intent'') (JString ''informational''),
                 mk_relevance_score = or_json (property k ''relevance_score'')
                                        (or_json (property k ''relevanceScore'') (JNumber ''0.5'')),
                 mk_reasoning = (case property k ''reasoning'' of
                                   None \<Rightarrow> None
                                 | Some v \<Rightarrow> if truthy v then Some v else None) \<rparr>)"

fun map_all_keywords :: "json list \<Rightarrow> string + mapped_keyword list" where
  "map_all_keywords [] = Inr []"
| "map_all_keywords (k # ks) =
     (case map_keyword k of
        Inl e \<Rightarrow> Inl e
      | Inr m \<Rightarrow> (case map_all_keywords ks of Inl e \<Rightarrow> Inl e | Inr ms \<Rightarrow> Inr (m # ms)))"

definition expandKeywords_mapped :: "parsed_data \<Rightarrow> string + mapped_keyword list" where
  "expandKeywords_mapped d =
     (case adapter_keywords d of
        Some (JArray vs) \<Rightarrow> map_all_keywords vs
      | Some v \<Rightarrow> Inl ''TypeError''
      | None \<Rightarrow> Inl ''data string outside the model'')"

subsection \<open>Concrete model outputs\<close>

definition scenario_c :: string where
  "scenario_c = ''```json\<newline>[{\"keyword\":\"a\",\"intent\":\"commercial\",\"relevance_score\":0.8}]\<newline>``` thanks!''"

definition bracket_in_string :: string where
  "bracket_in_string = ''Here: [{\"keyword\":\"a]b\"}] done''"

definition brace_in_string :: string where
  "brace_in_string = ''[{\"keyword\":\"a}b\"},{\"keyw''"

section \<open>Request fingerprints\<close>

definition template_string :: "string option \<Rightarrow> string" where
  "template_string v = (case v of None \<Rightarrow> ''undefined'' | Some s \<Rightarrow> s)"

definition expandToDream100_cacheKey :: "int \<Rightarrow> string option \<Rightarrow> string list \<Rightarrow> string" where
  "expandToDream100_cacheKey target_count intent_focus seed_keywords =
     ''expansion:'' @ show_int target_count @ '':'' @ template_string intent_focus @ '':'' @
     join '','' (sort seed_keywords)"

definition classifyIntent_cacheKey :: "string list \<Rightarrow> string \<Rightarrow> string" where
  "classifyIntent_cacheKey keywords context_json =
     ''intent:'' @ join '','' (sort keywords) @ '':'' @ context_json"

definition AhrefsClient_getKeywordMetrics_cacheKey :: "string \<Rightarrow> string list \<Rightarrow> string" where
  "AhrefsClient_getKeywordMetrics_cacheKey country keywords =
     ''kw:metrics:'' @ country @ '':'' @ join '','' (sort keywords)"

fun chunk_loop :: "nat \<Rightarrow> nat \<Rightarrow> 'a list \<Rightarrow> 'a list list" where
  "chunk_loop 0 chunkSize xs = []"
| "chunk_loop (Suc f) chunkSize xs =
     (if xs = [] then [] else take chunkSize xs # chunk_loop f chunkSize (drop chunkSize xs))"

definition chunkArray :: "'a list \<Rightarrow> nat \<Rightarrow> 'a list list" where
  "chunkArray array chunkSize = chunk_loop (length array) chunkSize array"

definition DataForSEOClient_batch_cacheKey :: "int \<Rightarrow> string \<Rightarrow> string list \<Rightarrow> string" where
  "DataForSEOClient_batch_cacheKey location language batch =
     ''dfs:labs:bulk:'' @ show_int location @ '':'' @ language @ '':'' @
     take 50 (join '','' (take 3 batch))"

definition DataForSEOClient_getKeywordData_cacheKeys :: "int \<Rightarrow> string \<Rightarrow> string list \<Rightarrow> string list" where
  "DataForSEOClient_getKeywordData_cacheKeys location language keywords =
     map (DataForSEOClient_batch_cacheKey location language) (chunkArray keywords 1000)"

section \<open>Gemini client\<close>

record AnthropicUsage =
  input_tokens :: nat
  output_tokens :: nat
  usage_model :: string
  cost_estimate :: rat
  usage_request_id :: string

record AnthropicResponse =
  resp_data :: parsed_data
  resp_usage :: AnthropicUsage
  resp_model :: string
  finish_reason :: string
  request_id :: string
  processing_time :: int

record cache_entry =
  entry_data :: AnthropicResponse
  entry_timestamp :: int
  entry_ttl :: int

record ApiMetrics =
  requests :: nat
  successes :: nat
  failures :: nat
  rateLimitHits :: nat
  circuitBreakerTrips :: nat
  totalCost :: rat
  avgResponseTime :: rat
  lastRequest :: int

record rate_limit_info =
  rl_limit :: rat
  rl_remaining :: rat
  rl_reset :: int
  rl_retryAfter :: int

record llm_error =
  err_message :: string
  err_code :: "string option"
  err_statusCode :: "nat option"
  err_retryable :: "bool option"
  err_rateLimit :: "rate_limit_info option"
  err_provider :: "string option"
  err_operation :: "string option"
  err_prompt :: "string option"

definition plain_error :: "string \<Rightarrow> llm_error" where
  "plain_error msg =
     \<lparr> err_message = msg, err_code = None, err_statusCode = None, err_retryable = None,
       err_rateLimit = None, err_provider = None, err_operation = None, err_prompt = None \<rparr>"

record usage_metadata =
  promptTokenCount :: "nat option"
  candidatesTokenCount :: "nat option"

record gemini_reply =
  reply_text :: "llm_error + string"
  reply_usageMetadata :: "usage_metadata option"
  reply_finishReason :: "string option"
  reply_finishMessage :: "string option"

record ('l, 'b) gateway_ops =
  tryConsume :: "'l \<Rightarrow> int \<Rightarrow> bool \<times> 'l"
  getRemainingTokens :: "'l \<Rightarrow> int \<Rightarrow> rat"
  getNextRefillTime :: "'l \<Rightarrow> int \<Rightarrow> int"
  configCapacity :: "'l \<Rightarrow> rat"
  breaker_execute :: "'b \<Rightarrow> int \<Rightarrow> llm_error + gemini_reply \<Rightarrow> 'b \<times> bool \<times> (llm_error + gemini_reply)"

record attempt_env =
  now :: int
  finished :: int
  upstream :: "llm_error + gemini_reply"
  random_id :: string

record ('l, 'b) GeminiClient =
  cache :: "string \<Rightarrow> cache_entry option"
  rateLimiter :: 'l
  circuitBreaker :: 'b
  metrics :: ApiMetrics
  networkCalls :: nat
  DEFAULT_GEMINI_MODEL :: string

record llm_options =
  opt_cacheKey :: "string option"
  opt_operation :: "string option"

definition getLLMCache :: "('l, 'b) GeminiClient \<Rightarrow> int \<Rightarrow> string \<Rightarrow> AnthropicResponse option" where
  "getLLMCache client t key =
     (case cache client key of
        Some cached \<Rightarrow>
          if t < entry_timestamp cached + entry_ttl cached then Some (entry_data cached) else None
      | None \<Rightarrow> None)"

definition setLLMCache ::
  "('l, 'b) GeminiClient \<Rightarrow> int \<Rightarrow> string \<Rightarrow> AnthropicResponse \<Rightarrow> ('l, 'b) GeminiClient" where
  "setLLMCache client t key d =
     client \<lparr> cache := (cache client)
        (key \<mapsto> \<lparr> entry_data = d, entry_timestamp = t, entry_ttl = 24 * 60 * 60 * 1000 \<rparr>) \<rparr>"

definition updateLLMMetrics :: "ApiMetrics \<Rightarrow> int \<Rightarrow> bool \<Rightarrow> int \<Rightarrow> rat \<Rightarrow> ApiMetrics" where
  "updateLLMMetrics m t ok responseTime cost =
     m \<lparr> requests := requests m + 1,
         lastRequest := t,
         totalCost := totalCost m + cost,
         successes := (if ok then successes m + 1 else successes m),
         failures := (if ok then failures m else failures m + 1),
         avgResponseTime := avgResponseTime m * (1 - 1 / 10) + of_int responseTime * (1 / 10) \<rparr>"

definition calculateCost :: "nat \<Rightarrow> nat \<Rightarrow> rat" where
  "calculateCost inputTokens outputTokens =
     of_nat inputTokens * (125 / 1000000000) + of_nat outputTokens * (5 / 10000000)"

definition cache_key_given :: "llm_options \<Rightarrow> string option" where
  "cache_key_given options =
     (case opt_cacheKey options of None \<Rightarrow> None | Some k \<Rightarrow> if k = [] then None else Some k)"

definition operation_name :: "llm_options \<Rightarrow> string" where
  "operation_name options = (case opt_operation options of None \<Rightarrow> ''llm_request'' | Some s \<Rightarrow> s)"

definition cached_response :: "AnthropicResponse \<Rightarrow> int \<Rightarrow> AnthropicResponse" where
  "cached_response cached t =
     \<lparr> resp_data = resp_data cached, resp_usage = resp_usage cached, resp_model = resp_model cached,
       finish_reason = ''cached'', request_id = ''cached_'' @ show_int t, processing_time = 0 \<rparr>"

definition rate_limit_error :: "('l, 'b) gateway_ops \<Rightarrow> 'l \<Rightarrow> int \<Rightarrow> llm_error" where
  "rate_limit_error ops limiter t =
     (plain_error ''Rate limit exceeded'')
       \<lparr> err_code := Some ''RATE_LIMIT_ERROR'',
         err_statusCode := Some 429,
         err_retryable := Some True,
         err_rateLimit := Some
           \<lparr> rl_limit = configCapacity ops limiter,
             rl_remaining = getRemainingTokens ops limiter t,
             rl_reset = \<lceil>(of_int (getNextRefillTime ops limiter t) :: rat) / 1000\<rceil>,
             rl_retryAfter = \<lceil>(of_int (getNextRefillTime ops limiter t - t) :: rat) / 1000\<rceil> \<rparr> \<rparr>"

definition request_failed ::
  "('l, 'b) GeminiClient \<Rightarrow> attempt_env \<Rightarrow> string \<Rightarrow> llm_options \<Rightarrow> llm_error \<Rightarrow>
   (llm_error + AnthropicResponse) \<times> ('l, 'b) GeminiClient" where
  "request_failed client env prompt options err =
     (let processingTime = finished env - now env;
          m0 = metrics client;
          m1 = (if includes_string (err_message err) ''Circuit breaker''
                then m0 \<lparr> circuitBreakerTrips := circuitBreakerTrips m0 + 1 \<rparr> else m0);
          m2 = updateLLMMetrics m1 (finished env) False processingTime 0
      in (Inl (err \<lparr> err_provider := Some ''gemini'',
                     err_operation := Some (operation_name options),
                     err_prompt := Some (take 100 prompt @ ''...'') \<rparr>),
          client \<lparr> metrics := m2 \<rparr>))"

definition request_succeeded ::
  "('l, 'b) GeminiClient \<Rightarrow> attempt_env \<Rightarrow> string \<Rightarrow> llm_options \<Rightarrow> gemini_reply \<Rightarrow> string \<Rightarrow>
   (llm_error + AnthropicResponse) \<times> ('l, 'b) GeminiClient" where
  "request_succeeded client env prompt options reply txt =
     (let processingTime = finished env - now env;
          parsedData = parse_response_text txt;
          (inputTokens, outputTokens) =
            (case reply_usageMetadata reply of
               Some u \<Rightarrow>
                 (case promptTokenCount u of None \<Rightarrow> 0 | Some n \<Rightarrow> n,
                  case candidatesTokenCount u of None \<Rightarrow> 0 | Some n \<Rightarrow> n)
             | None \<Rightarrow> ((length prompt + 3) div 4, (length txt + 3) div 4));
          usage =
            \<lparr> input_tokens = inputTokens, output_tokens = outputTokens,
              usage_model = DEFAULT_GEMINI_MODEL client,
              cost_estimate = calculateCost inputTokens outputTokens,
              usage_request_id = ''gemini_'' @ show_int (finished env) @ ''_'' @ random_id env \<rparr>;
          finishReason =
            (case reply_finishReason reply of
               Some r \<Rightarrow> if r \<noteq> [] then r
                         else (case reply_finishMessage reply of
                                 Some m \<Rightarrow> if m \<noteq> [] then ''stop'' else ''complete''
                               | None \<Rightarrow> ''complete'')
             | None \<Rightarrow> (case reply_finishMessage reply of
                          Some m \<Rightarrow> if m \<noteq> [] then ''stop'' else ''complete''
                        | None \<Rightarrow> ''complete''));
          result =
            \<lparr> resp_data = parsedData, resp_usage = usage, resp_model = DEFAULT_GEMINI_MODEL client,
              finish_reason = finishReason, request_id = usage_request_id usage,
              processing_time = processingTime \<rparr>;
          client1 = (case cache_key_given options of
                       Some key \<Rightarrow> setLLMCache client (finished env) key result
                     | None \<Rightarrow> client)
      in (Inr result,
          client1 \<lparr> metrics := updateLLMMetrics (metrics client1) (finished env) True processingTime
                                 (cost_estimate usage) \<rparr>))"

definition after_cache_miss ::
  "('l, 'b) gateway_ops \<Rightarrow> attempt_env \<Rightarrow> ('l, 'b) GeminiClient \<Rightarrow> string \<Rightarrow> llm_options \<Rightarrow>
   (llm_error + AnthropicResponse) \<times> ('l, 'b) GeminiClient" where
  "after_cache_miss ops env client prompt options =
     (let (canProceed, limiter) = tryConsume ops (rateLimiter client) (now env)
      in if \<not> canProceed then
           (Inl (rate_limit_error ops limiter (now env)),
            client \<lparr> rateLimiter := limiter,
                     metrics := (metrics client) \<lparr> rateLimitHits := rateLimitHits (metrics client) + 1 \<rparr> \<rparr>)
         else
           (let (breaker, invoked, outcome) =
                  breaker_execute ops (circuitBreaker client) (now env) (upstream env);
                client1 = client \<lparr> rateLimiter := limiter, circuitBreaker := breaker,
                                   networkCalls := networkCalls client + (if invoked then 1 else 0) \<rparr>
            in case outcome of
                 Inl err \<Rightarrow> request_failed client1 env prompt options err
               | Inr reply \<Rightarrow>
                   (case reply_text reply of
                      Inl err \<Rightarrow> request_failed client1 env prompt options err
                    | Inr txt \<Rightarrow> request_succeeded client1 env prompt options reply txt)))"

definition makeLLMRequest ::
  "('l, 'b) gateway_ops \<Rightarrow> attempt_env \<Rightarrow> ('l, 'b) GeminiClient \<Rightarrow> string \<Rightarrow> llm_options \<Rightarrow>
   (llm_error + AnthropicResponse) \<times> ('l, 'b) GeminiClient" where
  "makeLLMRequest ops env client prompt options =
     (case (case cache_key_given options of
              Some key \<Rightarrow> getLLMCache client (now env) key
            | None \<Rightarrow> None) of
        Some cached \<Rightarrow> (Inr (cached_response cached (now env)), client)
      | None \<Rightarrow> after_cache_miss ops env client prompt options)"

text \<open>Modelled from the spec: the retry executor (\<open>RetryHandler.withRetry\<close> is not
  among the source files).  It invokes the operation, re-attempts after a retryable
  error while attempts remain, and fails at once on any other error.  Each attempt
  runs in the environment of its own moment; the backoff sleeps are not modelled.\<close>

fun withRetry ::
  "nat \<Rightarrow> (attempt_env \<Rightarrow> 'c \<Rightarrow> (llm_error + 'r) \<times> 'c) \<Rightarrow> attempt_env \<Rightarrow> attempt_env list \<Rightarrow> 'c \<Rightarrow>
   (llm_error + 'r) \<times> 'c" where
  "withRetry maxAttempts operation env [] client = operation env client"
| "withRetry maxAttempts operation env (env' # envs) client =
     (case operation env client of
        (Inr r, client') \<Rightarrow> (Inr r, client')
      | (Inl err, client') \<Rightarrow>
          if err_retryable err = Some True \<and> 1 < maxAttempts
          then withRetry (maxAttempts - 1) operation env' envs client'
          else (Inl err, client'))"

record AnthropicKeywordExpansion =
  seed_keywords :: "string list"
  target_count :: int
  industry :: "string option"
  intent_focus :: "string option"

record AnthropicIntentClassification =
  ic_keywords :: "string list"
  ic_context_json :: string

definition expandToDream100 ::
  "('l, 'b) gateway_ops \<Rightarrow> (AnthropicKeywordExpansion \<Rightarrow> string) \<Rightarrow> attempt_env \<Rightarrow> attempt_env list \<Rightarrow>
   ('l, 'b) GeminiClient \<Rightarrow> AnthropicKeywordExpansion \<Rightarrow>
   (llm_error + AnthropicResponse) \<times> ('l, 'b) GeminiClient" where
  "expandToDream100 ops fullPrompt env envs client request =
     (if seed_keywords request = [] then
        (Inl (plain_error ''At least one seed keyword is required''), client)
      else if target_count request > 150 then
        (Inl (plain_error
           ''Maximum 150 keywords per expansion to maintain quality and avoid token limits''),
         client)
      else
        (let cacheKey = expandToDream100_cacheKey (target_count request) (intent_focus request)
                          (seed_keywords request);
             prompt = fullPrompt (request \<lparr> seed_keywords := sort (seed_keywords request) \<rparr>)
         in withRetry 2
              (\<lambda>e c. makeLLMRequest ops e c prompt
                        \<lparr> opt_cacheKey = Some cacheKey, opt_operation = Some ''keyword_expansion'' \<rparr>)
              env envs client))"

definition classifyIntent ::
  "('l, 'b) gateway_ops \<Rightarrow> (AnthropicIntentClassification \<Rightarrow> string) \<Rightarrow> attempt_env \<Rightarrow>
   ('l, 'b) GeminiClient \<Rightarrow> AnthropicIntentClassification \<Rightarrow>
   (llm_error + AnthropicResponse) \<times> ('l, 'b) GeminiClient" where
  "classifyIntent ops fullPrompt env client request =
     (if ic_keywords request = [] then
        (Inl (plain_error ''At least one keyword is required''), client)
      else if length (ic_keywords request) > 500 then
        (Inl (plain_error ''Maximum 500 keywords per classification request''), client)
      else
        (let cacheKey = classifyIntent_cacheKey (ic_keywords request) (ic_context_json request);
             prompt = fullPrompt (request \<lparr> ic_keywords := sort (ic_keywords request) \<rparr>)
         in makeLLMRequest ops env client prompt
              \<lparr> opt_cacheKey = Some cacheKey, opt_operation = Some ''intent_classification'' \<rparr>))"

text \<open>Modelled from the spec: the token bucket of the rate limiter (the rate-limiter
  module is not among the source files).  Refill is computed lazily at consumption
  time, \<open>tokens = min(capacity, tokens + elapsed/refillPeriod * refillRate)\<close>, and a
  consumption of cost one succeeds only if a whole token is there.  The clients reach
  their limiter and breaker only through \<open>gateway_ops\<close>; the bucket is one instance
  of it, used for the concrete runs.\<close>

record TokenBucket =
  capacity :: rat
  tokens :: rat
  refillRate :: rat
  refillPeriod :: rat
  lastRefillTime :: int

definition bucket_refill :: "TokenBucket \<Rightarrow> int \<Rightarrow> TokenBucket" where
  "bucket_refill b t =
     b \<lparr> tokens := min (capacity b)
                      (tokens b + of_int (t - lastRefillTime b) / refillPeriod b * refillRate b),
         lastRefillTime := t \<rparr>"

definition bucket_tryConsume :: "TokenBucket \<Rightarrow> int \<Rightarrow> bool \<times> TokenBucket" where
  "bucket_tryConsume b t =
     (let b' = bucket_refill b t
      in if tokens b' \<ge> 1 then (True, b' \<lparr> tokens := tokens b' - 1 \<rparr>) else (False, b'))"

definition bucket_ops :: "(TokenBucket, unit) gateway_ops" where
  "bucket_ops =
     \<lparr> tryConsume = bucket_tryConsume,
       getRemainingTokens = (\<lambda>b t. tokens b),
       getNextRefillTime = (\<lambda>b t. lastRefillTime b + \<lceil>refillPeriod b\<rceil>),
       configCapacity = capacity,
       breaker_execute = (\<lambda>b t outcome. (b, True, outcome)) \<rparr>"


definition unexpired_entry :: "('l, 'b) GeminiClient \<Rightarrow> int \<Rightarrow> string \<Rightarrow> bool" where
  "unexpired_entry client t key =
     (case cache client key of
        Some cached \<Rightarrow> t < entry_timestamp cached + entry_ttl cached
      | None \<Rightarrow> False)"

definition cache_hit :: "('l, 'b) GeminiClient \<Rightarrow> int \<Rightarrow> llm_options \<Rightarrow> bool" where
  "cache_hit client t options =
     (case cache_key_given options of Some key \<Rightarrow> unexpired_entry client t key | None \<Rightarrow> False)"

definition sample_usage :: AnthropicUsage where
  "sample_usage =
     \<lparr> input_tokens = 120, output_tokens = 40, usage_model = ''gemini-1.5-pro'',
       cost_estimate = calculateCost 120 40, usage_request_id = ''gemini_1000_abc'' \<rparr>"

definition sample_response :: AnthropicResponse where
  "sample_response =
     \<lparr> resp_data = ParsedJson (JArray [JObject [(''keyword'', JString ''a'')]]),
       resp_usage = sample_usage, resp_model = ''gemini-1.5-pro'', finish_reason = ''STOP'',
       request_id = ''gemini_1000_abc'', processing_time = 850 \<rparr>"

definition zero_metrics :: ApiMetrics where
  "zero_metrics =
     \<lparr> requests = 0, successes = 0, failures = 0, rateLimitHits = 0, circuitBreakerTrips = 0,
       totalCost = 0, avgResponseTime = 0, lastRequest = 0 \<rparr>"

definition empty_bucket :: TokenBucket where
  "empty_bucket =
     \<lparr> capacity = 50, tokens = 0, refillRate = 10, refillPeriod = 60000, lastRefillTime = 5000 \<rparr>"

definition sample_client :: "(TokenBucket, unit) GeminiClient" where
  "sample_client =
     \<lparr> cache = [''expansion:10:mixed:seo'' \<mapsto>
                  \<lparr> entry_data = sample_response, entry_timestamp = 1000, entry_ttl = 86400000 \<rparr>],
       rateLimiter = empty_bucket, circuitBreaker = (), metrics = zero_metrics, networkCalls = 0,
       DEFAULT_GEMINI_MODEL = ''gemini-1.5-pro'' \<rparr>"

definition sample_reply :: gemini_reply where
  "sample_reply =
     \<lparr> reply_text = Inr ''[]'', reply_usageMetadata = None, reply_finishReason = None,
       reply_finishMessage = None \<rparr>"

definition env_at :: "int \<Rightarrow> attempt_env" where
  "env_at t = \<lparr> now = t, finished = t + 900, upstream = Inr sample_reply, random_id = ''abc'' \<rparr>"

definition hit_options :: llm_options where
  "hit_options = \<lparr> opt_cacheKey = Some ''expansion:10:mixed:seo'', opt_operation = None \<rparr>"

definition miss_options :: llm_options where
  "miss_options = \<lparr> opt_cacheKey = Some ''expansion:10:mixed:other'', opt_operation = None \<rparr>"

definition no_seed_request :: AnthropicKeywordExpansion where
  "no_seed_request =
     \<lparr> seed_keywords = [], target_count = 100, industry = None, intent_focus = None \<rparr>"

definition large_request :: AnthropicKeywordExpansion where
  "large_request =
     \<lparr> seed_keywords = [''seo''], target_count = 151, industry = None, intent_focus = None \<rparr>"

definition no_keyword_request :: AnthropicIntentClassification where
  "no_keyword_request = \<lparr> ic_keywords = [], ic_context_json = ''{}'' \<rparr>"

definition long_request :: AnthropicIntentClassification where
  "long_request = \<lparr> ic_keywords = replicate 501 ''seo'', ic_context_json = ''{}'' \<rparr>"

section \<open>The clients behind the provider\<close>

text \<open>
  The clients send their requests through \<open>makeRequest\<close> of their base class
  \<open>BaseApiClient\<close>, which is not among the source files.  It is a parameter here: a
  function from what the client passes to the awaited outcome, a rejection with the
  error's message or the response.
\<close>

subsection \<open>\<open>DataForSEOClient.getKeywordData\<close>\<close>

text \<open>An item of the Labs result as \<open>getKeywordData\<close> reads it, and a task of the
  response with its \<open>result\<close>.\<close>

record labs_result_item =
  item_keyword :: "string option"
  item_search_volume :: "rat option"

record labs_task =
  task_result :: "labs_result_item list option"

type_synonym labs_makeRequest =
  "string list \<Rightarrow> int \<Rightarrow> string \<Rightarrow> string \<Rightarrow> labs_task list call_result"

text \<open>\<open>response.data?.[0]?.result || []\<close>.\<close>

definition labs_items :: "labs_task list ApiResponse \<Rightarrow> labs_result_item list" where
  "labs_items response =
     (case data response of
        Some (task # tasks) \<Rightarrow> (case task_result task of Some items \<Rightarrow> items | None \<Rightarrow> [])
      | _ \<Rightarrow> [])"

text \<open>The record pushed for an item whose \<open>keyword\<close> is truthy: the volume of the item
  or 0, and 0 for the competition and the cpc, which the Labs API does not return.\<close>

definition labs_record :: "string \<Rightarrow> labs_result_item \<Rightarrow> dfs_raw" where
  "labs_record kw item =
     \<lparr> dfs_keyword = Some kw,
       keyword_info =
         Some \<lparr> search_volume = Some (case item_search_volume item of Some v \<Rightarrow> v | None \<Rightarrow> 0),
                info_cpc = Some 0, info_competition = Some 0, monthly_searches = Some [] \<rparr>,
       dfs_own = \<lparr> search_volume = None, info_cpc = None, info_competition = None,
                   monthly_searches = None \<rparr>,
       keyword_difficulty = None \<rparr>"

definition labs_records :: "labs_result_item list \<Rightarrow> dfs_raw list" where
  "labs_records items =
     concat (map (\<lambda>item. case item_keyword item of
                            Some kw \<Rightarrow> if kw \<noteq> [] then [labs_record kw item] else []
                          | None \<Rightarrow> []) items)"

text \<open>The loop over the batches: a batch whose request rejects is skipped.\<close>

fun getKeywordData_batches ::
  "labs_makeRequest \<Rightarrow> int \<Rightarrow> string \<Rightarrow> string list list \<Rightarrow> dfs_raw list \<Rightarrow> dfs_raw list" where
  "getKeywordData_batches makeRequest location language [] results = results"
| "getKeywordData_batches makeRequest location language (batch # batches) results =
     (case makeRequest batch location language
             (DataForSEOClient_batch_cacheKey location language batch) of
        Inl err \<Rightarrow> getKeywordData_batches makeRequest location language batches results
      | Inr response \<Rightarrow>
          getKeywordData_batches makeRequest location language batches
            (results @ labs_records (labs_items response)))"

definition DataForSEOClient_getKeywordData ::
  "labs_makeRequest \<Rightarrow> string list \<Rightarrow> int \<Rightarrow> string \<Rightarrow> dfs_raw list call_result" where
  "DataForSEOClient_getKeywordData makeRequest keywords location language =
     (if keywords = [] then Inl ''At least one keyword is required''
      else Inr \<lparr> success = True,
                 data = Some (getKeywordData_batches makeRequest location language
                                (chunkArray keywords 1000) []) \<rparr>)"

subsection \<open>\<open>AhrefsClient\<close>\<close>

text \<open>\<open>encodeURIComponent\<close> on code units below 256: the unreserved characters stay,
  every other is written as the bytes of its UTF-8 encoding, each as \<open>%\<close> and two
  upper-case hexadecimal digits.\<close>

definition uri_unreserved :: "char \<Rightarrow> bool" where
  "uri_unreserved c =
     (let n = (of_char c :: nat)
      in (48 \<le> n \<and> n \<le> 57) \<or> (65 \<le> n \<and> n \<le> 90) \<or> (97 \<le> n \<and> n \<le> 122) \<or>
         c \<in> set [CHR ''-'', CHR ''_'', CHR ''.'', CHR ''!'', CHR ''~'', CHR ''*'', CHR 0x27,
                    CHR ''('', CHR '')''])"

definition percent_byte :: "nat \<Rightarrow> string" where
  "percent_byte b = [CHR ''%'', ''0123456789ABCDEF'' ! (b div 16), ''0123456789ABCDEF'' ! (b mod 16)]"

definition encodeURIComponent :: "string \<Rightarrow> string" where
  "encodeURIComponent s =
     concat (map (\<lambda>c. let n = (of_char c :: nat)
                       in if uri_unreserved c then [c]
                          else if n < 128 then percent_byte n
                          else percent_byte (192 + n div 64) @ percent_byte (128 + n mod 64)) s)"

text \<open>The state of the client that \<open>getKeywordMetrics\<close> reads, and \<open>makeRequest\<close> at
  the two result types that the client asks for: a list of keyword items and one
  overview.  Its arguments are the endpoint and the cache key.\<close>

record AhrefsClient =
  keywordsExplorerAvailable :: "bool option"

record ahrefs_makeRequest =
  request_items :: "string \<Rightarrow> string option \<Rightarrow> ahrefs_raw list call_result"
  request_overview :: "string \<Rightarrow> string option \<Rightarrow> ahrefs_raw call_result"

text \<open>\<open>checkKeywordsExplorerAvailability\<close>: the remembered answer or, the first time,
  a probe request, of which only the outcome is read.\<close>

definition checkKeywordsExplorerAvailability ::
  "ahrefs_makeRequest \<Rightarrow> AhrefsClient \<Rightarrow> bool \<times> AhrefsClient" where
  "checkKeywordsExplorerAvailability makeRequest client =
     (case keywordsExplorerAvailable client of
        Some available \<Rightarrow> (available, client)
      | None \<Rightarrow>
          (case request_items makeRequest
                  ''/v3/keywords-explorer/overview?keywords=test&country=us&select=keyword'' None of
             Inr response \<Rightarrow> (True, client \<lparr> keywordsExplorerAvailable := Some True \<rparr>)
           | Inl message \<Rightarrow>
               if includes_string message ''Insufficient plan'' \<or> includes_string message ''403''
               then (False, client \<lparr> keywordsExplorerAvailable := Some False \<rparr>)
               else (True, client)))"

text \<open>The mock generators of the client.  Each item draws seven numbers from
  \<open>Math.random()\<close>, in the order of its fields: \<open>search_volume\<close>,
  \<open>keyword_difficulty\<close>, \<open>cpc\<close>, \<open>clicks\<close>, \<open>global_volume\<close>, \<open>traffic_potential\<close>
  and \<open>return_rate\<close>.\<close>

definition mock_keyword_item :: "(nat \<Rightarrow> rat) \<Rightarrow> nat \<Rightarrow> string \<Rightarrow> ahrefs_raw" where
  "mock_keyword_item rnd k kw =
     \<lparr> ah_keyword = Some kw,
       ah_volume = None,
       ah_search_volume = Some (of_int \<lfloor>rnd k * 10000\<rfloor> + 100),
       ah_difficulty = None,
       ah_keyword_difficulty = Some (of_int \<lfloor>rnd (k + 1) * 100\<rfloor>),
       ah_cpc = Some (of_int (Math_round ((rnd (k + 2) * 5 + 1 / 2) * 100)) / 100),
       ah_traffic_potential = Some (of_int \<lfloor>rnd (k + 5) * 10000\<rfloor>),
       ah_trend = None \<rparr>"

definition getMockKeywordMetrics :: "(nat \<Rightarrow> rat) \<Rightarrow> string list \<Rightarrow> ahrefs_raw list ApiResponse" where
  "getMockKeywordMetrics rnd keywords =
     \<lparr> success = True,
       data = Some (map (\<lambda>(i, kw). mock_keyword_item rnd (7 * i) kw)
                     (zip [0 ..< length keywords] keywords)) \<rparr>"

definition getMockKeywordOverview :: "(nat \<Rightarrow> rat) \<Rightarrow> string \<Rightarrow> ahrefs_raw ApiResponse" where
  "getMockKeywordOverview rnd kw = \<lparr> success = True, data = Some (mock_keyword_item rnd 0 kw) \<rparr>"

text \<open>\<open>getKeywordMetrics\<close>: mock metrics when Keywords Explorer is unavailable and when
  the request rejects.  The options of the request are built before it is sent, so the
  array is sorted by then, also for the mock metrics of a rejected request.  The result
  is the awaited outcome with the array after the call, and the client after the
  availability check (a later change of the flag by the transport is not read again in
  the call).\<close>

definition AhrefsClient_getKeywordMetrics ::
  "ahrefs_makeRequest \<Rightarrow> (nat \<Rightarrow> rat) \<Rightarrow> AhrefsClient \<Rightarrow> string list \<Rightarrow> string \<Rightarrow>
   (ahrefs_raw list call_result \<times> string list) \<times> AhrefsClient" where
  "AhrefsClient_getKeywordMetrics makeRequest rnd client keywords country =
     (if keywords = [] then ((Inl ''At least one keyword is required'', keywords), client)
      else
        (case checkKeywordsExplorerAvailability makeRequest client of
           (available, client') \<Rightarrow>
             if \<not> available then ((Inr (getMockKeywordMetrics rnd keywords), keywords), client')
             else
               (let keywordsParam = join '','' (map encodeURIComponent keywords);
                    endpoint = ''/v3/keywords-explorer/overview?keywords='' @ keywordsParam @
                               ''&country='' @ country @ ''&select=keyword,volume,difficulty,cpc'';
                    sorted = sort keywords;
                    cacheKey = ''kw:metrics:'' @ country @ '':'' @ join '','' sorted
                in case request_items makeRequest endpoint (Some cacheKey) of
                     Inr response \<Rightarrow> ((Inr response, sorted), client')
                   | Inl err \<Rightarrow> ((Inr (getMockKeywordMetrics rnd sorted), sorted), client'))))"

definition AhrefsClient_getKeywordOverview ::
  "ahrefs_makeRequest \<Rightarrow> (nat \<Rightarrow> rat) \<Rightarrow> AhrefsClient \<Rightarrow> string \<Rightarrow> string \<Rightarrow>
   ahrefs_raw call_result \<times> AhrefsClient" where
  "AhrefsClient_getKeywordOverview makeRequest rnd client kw country =
     (case checkKeywordsExplorerAvailability makeRequest client of
        (available, client') \<Rightarrow>
          if \<not> available then (Inr (getMockKeywordOverview rnd kw), client')
          else
            (let endpoint = ''/v3/keywords-explorer/overview?keywords='' @ encodeURIComponent kw @
                            ''&country='' @ country @
                            ''&select=keyword,volume,difficulty,cpc,clicks,global_volume'';
                 cacheKey = ''kw:overview:'' @ country @ '':'' @ kw
             in case request_overview makeRequest endpoint (Some cacheKey) of
                  Inr response \<Rightarrow> (Inr response, client')
                | Inl err \<Rightarrow> (Inr (getMockKeywordOverview rnd kw), client')))"

subsection \<open>Providers that hold a client\<close>


definition ahrefs_methods ::
  "ahrefs_makeRequest \<Rightarrow> (nat \<Rightarrow> rat) \<Rightarrow> AhrefsClient \<Rightarrow> AhrefsClient_methods" where
  "ahrefs_methods makeRequest rnd client =
     \<lparr> getKeywordMetrics_call =
         (\<lambda>keywords country. fst (AhrefsClient_getKeywordMetrics makeRequest rnd client keywords country)),
       getKeywordOverview_call =
         (\<lambda>kw country. fst (AhrefsClient_getKeywordOverview makeRequest rnd client kw country)) \<rparr>"





subsection \<open>Concrete providers\<close>

definition no_options :: bulk_options where
  "no_options = \<lparr> opt_location = None, opt_language = None \<rparr>"

definition rnd_zero :: "nat \<Rightarrow> rat" where
  "rnd_zero n = 0"


definition labs_item :: "string \<Rightarrow> rat \<Rightarrow> dfs_raw" where
  "labs_item kw v =
     \<lparr> dfs_keyword = Some kw,
       keyword_info = Some \<lparr> search_volume = Some v, info_cpc = Some 0, info_competition = Some 0,
                             monthly_searches = Some [] \<rparr>,
       dfs_own = \<lparr> search_volume = None, info_cpc = None, info_competition = None,
                   monthly_searches = None \<rparr>,
       keyword_difficulty = None \<rparr>"

definition ahrefs_item :: "string \<Rightarrow> rat \<Rightarrow> ahrefs_raw" where
  "ahrefs_item kw v =
     \<lparr> ah_keyword = Some kw, ah_volume = Some v, ah_search_volume = None, ah_difficulty = None,
       ah_keyword_difficulty = None, ah_cpc = None, ah_traffic_potential = None, ah_trend = None \<rparr>"

text \<open>A DataForSEO client whose requests are answered for the keyword \<open>seo tools\<close>
  only, and one whose requests all fail.\<close>

definition labs_partial_answer :: labs_makeRequest where
  "labs_partial_answer batch location language cacheKey =
     Inr \<lparr> success = True,
           data = Some [\<lparr> task_result = Some [\<lparr> item_keyword = Some ''seo tools'',
                                                item_search_volume = Some 5400 \<rparr>] \<rparr>] \<rparr>"

definition dfs_partial_client :: "string list \<Rightarrow> int \<Rightarrow> string \<Rightarrow> dfs_raw list call_result" where
  "dfs_partial_client = DataForSEOClient_getKeywordData labs_partial_answer"

definition kp_dataforseo_partial :: KeywordProvider where
  "kp_dataforseo_partial =
     \<lparr> mockMode = False, dataForSEOClient = Some dfs_partial_client, ahrefsClient = None \<rparr>"


text \<open>An Ahrefs client with Keywords Explorer available whose request is answered for
  \<open>seo tools\<close> only, and a new client on a plan without Keywords Explorer, whose
  requests are refused.\<close>

definition ahrefs_partial_answer :: ahrefs_makeRequest where
  "ahrefs_partial_answer =
     \<lparr> request_items =
         (\<lambda>endpoint cacheKey. Inr \<lparr> success = True, data = Some [ahrefs_item ''seo tools'' 5400] \<rparr>),
       request_overview =
         (\<lambda>endpoint cacheKey. Inr \<lparr> success = True, data = Some (ahrefs_item ''seo tools'' 5400) \<rparr>) \<rparr>"

definition ahrefs_partial_client :: AhrefsClient_methods where
  "ahrefs_partial_client =
     ahrefs_methods ahrefs_partial_answer rnd_zero \<lparr> keywordsExplorerAvailable = Some True \<rparr>"

definition kp_ahrefs_partial :: KeywordProvider where
  "kp_ahrefs_partial =
     \<lparr> mockMode = False, dataForSEOClient = None, ahrefsClient = Some ahrefs_partial_client \<rparr>"



section \<open>Truncated arrays: the inputs and the notions of the proofs\<close>

text \<open>A model output with an array that is truncated in the middle of an object:
  some text before the array, the opening bracket, the text up to the first object
  (the line break and indentation of a pretty-printed array), complete objects each
  followed by a separator, and the beginning of one more object.\<close>

definition plain_char :: "char \<Rightarrow> bool" where
  "plain_char c =
     (c \<noteq> CHR 0x22 \<and> c \<noteq> CHR 0x5C \<and> c \<noteq> CHR ''{'' \<and> c \<noteq> CHR ''}'' \<and> c \<noteq> CHR ''['' \<and>
      c \<noteq> CHR '']'')"


text \<open>The text of a complete object: it parses as a JSON object, starts with its
  opening brace and ends with its closing brace.\<close>

definition object_text :: "string \<Rightarrow> bool" where
  "object_text obj =
     ((case JSON_parse obj of Some (JObject kvs) \<Rightarrow> True | _ \<Rightarrow> False) \<and> obj \<noteq> [] \<and>
      hd obj = CHR ''{'' \<and> last obj = CHR ''}'')"


definition items_text :: "(string \<times> string) list \<Rightarrow> string" where
  "items_text items = concat (map (\<lambda>(obj, sep). obj @ sep) items)"

definition well_formed_items :: "(string \<times> string) list \<Rightarrow> bool" where
  "well_formed_items items =
     list_all (\<lambda>(obj, sep). object_text obj \<and> list_all plain_char sep) items"


definition truncated_array_text ::
  "string \<Rightarrow> string \<Rightarrow> (string \<times> string) list \<Rightarrow> string \<Rightarrow> string" where
  "truncated_array_text pre lead items tail =
     pre @ CHR ''['' # lead @ items_text items @ tail"

text \<open>Following the claim: the values of the complete objects, and among them those
  whose \<open>keyword\<close> field is neither missing nor empty.  The field of an object is the
  last member with that key; \<open>null\<close>, \<open>false\<close>, a zero number and the empty string
  count as empty.\<close>

definition complete_objects :: "(string \<times> string) list \<Rightarrow> json list" where
  "complete_objects items = map (\<lambda>(obj, sep). the (JSON_parse obj)) items"

definition keyword_fields :: "json \<Rightarrow> json list" where
  "keyword_fields v =
     (case v of
        JObject kvs \<Rightarrow> map snd (filter (\<lambda>(k, x). string_value k = map of_char ''keyword'') kvs)
      | _ \<Rightarrow> [])"

definition keyword_nonempty :: "json \<Rightarrow> bool" where
  "keyword_nonempty v =
     (if keyword_fields v = [] then False
      else (case last (keyword_fields v) of
              JNull \<Rightarrow> False
            | JBool b \<Rightarrow> b
            | JNumber lx \<Rightarrow> \<not> zero_lexeme lx
            | JString s \<Rightarrow> s \<noteq> []
            | JArray vs \<Rightarrow> True
            | JObject kvs \<Rightarrow> True))"

definition recovered_objects :: "(string \<times> string) list \<Rightarrow> json list" where
  "recovered_objects items = filter keyword_nonempty (complete_objects items)"

text \<open>The context of a character in a JSON text, as the scan for complete objects
  tracks it: inside a quoted string, directly after a backslash, and the nesting depths
  of braces and of brackets outside quoted strings.\<close>

type_synonym scan_ctx = "bool \<times> bool \<times> int \<times> int"

fun ctx_step :: "scan_ctx \<Rightarrow> char \<Rightarrow> scan_ctx" where
  "ctx_step (i, e, d, b) c =
     (if e then (i, False, d, b)
      else if c = CHR 0x5C then (i, True, d, b)
      else if c = CHR 0x22 then (\<not> i, False, d, b)
      else if i then (i, False, d, b)
      else if c = CHR ''{'' then (i, False, d + 1, b)
      else if c = CHR ''}'' then (i, False, d - 1, b)
      else if c = CHR ''['' then (i, False, d, b + 1)
      else if c = CHR '']'' then (i, False, d, b - 1)
      else (i, False, d, b))"

definition ctx_run :: "scan_ctx \<Rightarrow> string \<Rightarrow> scan_ctx" where
  "ctx_run st cs = foldl ctx_step st cs"




text \<open>After every character of the text both depths are at least the given bounds.\<close>

fun ctx_above :: "int \<Rightarrow> int \<Rightarrow> scan_ctx \<Rightarrow> string \<Rightarrow> bool" where
  "ctx_above d0 b0 st [] = True"
| "ctx_above d0 b0 st (c # cs) =
     (case ctx_step st c of (i, e, d, b) \<Rightarrow> d0 \<le> d \<and> b0 \<le> b \<and> ctx_above d0 b0 (i, e, d, b) cs)"

text \<open>A text is neutral when, read outside a string, it ends outside a string at the
  depths it started with and never goes below them; it closes a string when, read
  inside one, it ends just outside it.\<close>

definition neutral :: "string \<Rightarrow> bool" where
  "neutral cs =
     (\<forall>d b. ctx_run (False, False, d, b) cs = (False, False, d, b) \<and>
            ctx_above d b (False, False, d, b) cs)"


definition consumes :: "string \<Rightarrow> string \<Rightarrow> bool" where
  "consumes s r = (\<exists>c. s = c @ r \<and> neutral c)"

definition sal_ctx :: "salvage_state \<Rightarrow> int \<Rightarrow> scan_ctx" where
  "sal_ctx st b = (inString st, escapeNext st, braceDepth st, b)"

definition at_top :: "salvage_state \<Rightarrow> bool" where
  "at_top st = (braceDepth st = 0 \<and> \<not> inString st \<and> \<not> escapeNext st)"

subsection \<open>Concrete truncated outputs\<close>



definition bracket_items :: "(string \<times> string) list" where
  "bracket_items = [(''{\"keyword\":\"a]\"}'', '',''), (''{\"keyword\":\"b\"}'', '','')]"


definition one_item :: "(string \<times> string) list" where
  "one_item = [(''{\"keyword\":\"a\"}'', '','')]"

chapter \<open>Properties\<close>

section \<open>Properties of the provider cascade\<close>

lemma record_invariant_normalizeDataForSEOData: "record_invariant (normalizeDataForSEOData d)"
  by (simp add: record_invariant_def normalizeDataForSEOData_def Let_def)

lemma record_invariant_normalizeAhrefsData: "record_invariant (normalizeAhrefsData d)"
  by (simp add: record_invariant_def normalizeAhrefsData_def)

lemma record_invariant_getMockKeywordData: "record_invariant (getMockKeywordData rnd k kw)"
  by (simp add: record_invariant_def getMockKeywordData_def Let_def)

lemma record_invariant_unavailable_record: "record_invariant (unavailable_record k)"
  by (simp add: record_invariant_def unavailable_record_def)

lemma record_invariant_mock_all: "r \<in> set (mock_all rnd keywords) \<Longrightarrow> record_invariant r"
  by (auto simp: mock_all_def record_invariant_getMockKeywordData)

lemma record_invariant_bulk_dataforseo:
  "bulk_dataforseo kp keywords options = Some out \<Longrightarrow> r \<in> set out \<Longrightarrow> record_invariant r"
  by (auto simp: bulk_dataforseo_def Let_def record_invariant_normalizeDataForSEOData
        record_invariant_unavailable_record
      split: option.splits sum.splits bool.splits)

lemma record_invariant_bulk_ahrefs:
  "bulk_ahrefs kp keywords options = (Some out, ks) \<Longrightarrow> r \<in> set out \<Longrightarrow> record_invariant r"
  by (auto simp: bulk_ahrefs_def record_invariant_normalizeAhrefsData
      split: option.splits sum.splits bool.splits prod.splits)

lemma record_invariant_getBulkKeywordMetrics:
  "r \<in> set (getBulkKeywordMetrics kp rnd keywords options) \<Longrightarrow> record_invariant r"
proof -
  assume r: "r \<in> set (getBulkKeywordMetrics kp rnd keywords options)"
  obtain res ks where b: "bulk_ahrefs kp keywords options = (res, ks)"
    by (cases "bulk_ahrefs kp keywords options")
  show ?thesis
  proof (cases res)
    case None
    with r b show ?thesis
      by (auto simp: getBulkKeywordMetrics_def
          dest: record_invariant_mock_all record_invariant_bulk_dataforseo
          split: if_splits option.splits)
  next
    case (Some out)
    with r b show ?thesis
      using record_invariant_bulk_ahrefs [OF b [unfolded Some]]
      by (auto simp: getBulkKeywordMetrics_def
          dest: record_invariant_mock_all record_invariant_bulk_dataforseo
          split: if_splits option.splits)
  qed
qed

lemma record_invariant_getKeywordMetrics:
  "record_invariant (getKeywordMetrics kp rnd kw options)"
  by (auto simp: getKeywordMetrics_def Let_def record_invariant_getMockKeywordData
        record_invariant_normalizeDataForSEOData record_invariant_normalizeAhrefsData
      split: option.splits sum.splits bool.splits list.splits)

text \<open>
  C3.  Every record that \<open>getBulkKeywordMetrics\<close> or \<open>getKeywordMetrics\<close> returns
  satisfies the invariant of unified records: a record whose source is \<open>unavailable\<close>
  has no volume, difficulty, cpc, competition or trend and confidence 0, and the
  confidence of every record lies between 0 and 1.
\<close>

theorem unified_record_invariant:
  "(\<forall>r \<in> set (getBulkKeywordMetrics kp rnd keywords options). record_invariant r) \<and>
   record_invariant (getKeywordMetrics kp rnd kw options)"
  using record_invariant_getBulkKeywordMetrics record_invariant_getKeywordMetrics by blast

theorem unified_record_invariant_witness:
  "unavailable_record ''content marketing''
     \<in> set (getBulkKeywordMetrics kp_dataforseo_partial rnd_zero
              [''seo tools'', ''content marketing''] no_options) \<and>
   source (unavailable_record ''content marketing'') = unavailable \<and>
   record_invariant (unavailable_record ''content marketing'')"
proof -
  have mem: "unavailable_record ''content marketing''
     \<in> set (getBulkKeywordMetrics kp_dataforseo_partial rnd_zero
              [''seo tools'', ''content marketing''] no_options)"
    by code_simp
  from unified_record_invariant [of kp_dataforseo_partial rnd_zero
      "[''seo tools'', ''content marketing'']" no_options] mem
  show ?thesis by (simp add: unavailable_record_def)
qed

lemma source_bulk_dataforseo:
  "bulk_dataforseo kp keywords options = Some out \<Longrightarrow> r \<in> set out \<Longrightarrow>
   source r = dataforseo \<or> source r = unavailable"
  by (auto simp: bulk_dataforseo_def Let_def normalizeDataForSEOData_def unavailable_record_def
      split: option.splits sum.splits bool.splits)

lemma source_bulk_ahrefs:
  "bulk_ahrefs kp keywords options = (Some out, ks) \<Longrightarrow> r \<in> set out \<Longrightarrow> source r = ahrefs"
  by (auto simp: bulk_ahrefs_def normalizeAhrefsData_def
      split: option.splits sum.splits bool.splits prod.splits)

lemma bulk_dataforseo_None_iff:
  "bulk_dataforseo kp keywords options = None \<longleftrightarrow> \<not> dataforseo_answered kp keywords options"
  by (auto simp: bulk_dataforseo_def dataforseo_answered_def Let_def
      split: option.splits sum.splits bool.splits)

lemma bulk_ahrefs_None_iff:
  "fst (bulk_ahrefs kp keywords options) = None \<longleftrightarrow> \<not> ahrefs_answered kp keywords options"
  by (auto simp: bulk_ahrefs_def ahrefs_answered_def
      split: option.splits sum.splits bool.splits prod.splits)

text \<open>The source of every returned record is decided by the outcome of the provider
  calls: \<open>dataforseo\<close> or \<open>unavailable\<close> when the DataForSEO call answered, \<open>ahrefs\<close>
  when it did not and the Ahrefs call answered, and \<open>mock\<close> when no call answered.\<close>

lemma sources_by_outcome:
  assumes "provider_queried kp keywords" and "r \<in> set (getBulkKeywordMetrics kp rnd keywords options)"
  shows "source r =
           (if dataforseo_answered kp keywords options
            then (if source r = unavailable then unavailable else dataforseo)
            else if ahrefs_answered kp keywords options then ahrefs else mock)"
proof -
  from assms(1) have live: "\<not> mockMode kp" "keywords \<noteq> []"
    by (simp_all add: provider_queried_def)
  show ?thesis
  proof (cases "bulk_dataforseo kp keywords options")
    case (Some out)
    with live assms(2) have "r \<in> set out" by (simp add: getBulkKeywordMetrics_def)
    moreover from Some have "dataforseo_answered kp keywords options"
      using bulk_dataforseo_None_iff [of kp "keywords" options] by simp
    ultimately show ?thesis using source_bulk_dataforseo [OF Some] by auto
  next
    case None
    then have no: "\<not> dataforseo_answered kp keywords options"
      by (simp add: bulk_dataforseo_None_iff)
    obtain res ks where b: "bulk_ahrefs kp keywords options = (res, ks)"
      by (cases "bulk_ahrefs kp keywords options")
    show ?thesis
    proof (cases res)
      case (Some out)
      with live None b assms(2) have "r \<in> set out" by (simp add: getBulkKeywordMetrics_def)
      moreover from Some b have "ahrefs_answered kp keywords options"
        using bulk_ahrefs_None_iff [of kp "keywords" options] by simp
      ultimately show ?thesis using no source_bulk_ahrefs [OF b [unfolded Some]] by simp
    next
      case None2: None
      with b have "\<not> ahrefs_answered kp keywords options"
        using bulk_ahrefs_None_iff [of kp "keywords" options] by simp
      moreover from live None b None2 assms(2) have "r \<in> set (mock_all rnd ks)"
        by (simp add: getBulkKeywordMetrics_def)
      then have "source r = mock" by (auto simp: mock_all_def getMockKeywordData_def Let_def)
      ultimately show ?thesis using no by simp
    qed
  qed
qed

subsection \<open>The repository's clients\<close>

text \<open>What a record of the DataForSEO client becomes: the volume of the provider's
  item, or 0 when it has none, and the client's 0 for cpc and competition.\<close>

lemma labs_record_normalized:
  "normalizeDataForSEOData (labs_record kw item) =
     \<lparr> keyword = kw,
       volume = Some (case item_search_volume item of Some v \<Rightarrow> v | None \<Rightarrow> 0),
       difficulty = None, cpc = Some 0, competition = Some 0, trend = Some [],
       source = dataforseo, confidence = 95 / 100 \<rparr>"
  by (simp add: normalizeDataForSEOData_def labs_record_def or_string_def Math_round_def
        floor_eq_iff)





lemma mock_metrics_records:
  "map normalizeAhrefsData (the (data (getMockKeywordMetrics rnd' ks))) =
     map (\<lambda>(i, kw). normalizeAhrefsData (mock_keyword_item rnd' (7 * i) kw))
       (zip [0 ..< length ks] ks)"
  by (simp add: getMockKeywordMetrics_def comp_def split_def)







lemma length_filter_mem_image:
  assumes "distinct (map f ks)" and "E \<subseteq> f ` set ks"
  shows "length (filter (\<lambda>k. f k \<in> E) ks) = card E"
proof -
  have "length (filter (\<lambda>k. f k \<in> E) ks) = length (map f (filter (\<lambda>k. f k \<in> E) ks))"
    by simp
  also have "map f (filter (\<lambda>k. f k \<in> E) ks) = filter (\<lambda>x. x \<in> E) (map f ks)"
    by (simp add: filter_map comp_def)
  also have "length \<dots> = card (set (filter (\<lambda>x. x \<in> E) (map f ks)))"
    using assms(1) by (metis distinct_card distinct_filter)
  also have "set (filter (\<lambda>x. x \<in> E) (map f ks)) = E"
    using assms(2) by auto
  finally show ?thesis .
qed

text \<open>The DataForSEO branch keeps the cardinality: when the requested keywords are
  distinct up to letter case and the provider answers with distinct items for some of
  them, the output is the normalised items followed by one \<open>unavailable\<close> record for
  each keyword left out, as many records as keywords.\<close>

lemma dataforseo_partial_batch:
  assumes client: "dataForSEOClient kp = Some getKeywordData"
      and answer: "getKeywordData keywords (getLocationCode (or_string (opt_location options) ''US''))
                     (or_string (opt_language options) ''en'')
                   = Inr \<lparr> success = True, data = Some d \<rparr>"
      and live: "\<not> mockMode kp" "keywords \<noteq> []"
      and requested: "distinct (map toLowerCase keywords)"
      and returned: "distinct (map (\<lambda>r. toLowerCase (or_string (dfs_keyword r) [])) d)"
         "set (map (\<lambda>r. toLowerCase (or_string (dfs_keyword r) [])) d) \<subseteq> toLowerCase ` set keywords"
  shows "getBulkKeywordMetrics kp rnd keywords options =
           map normalizeDataForSEOData d @
           map unavailable_record
             (filter (\<lambda>k. toLowerCase k \<notin> set (map (\<lambda>r. toLowerCase (or_string (dfs_keyword r) [])) d))
                keywords)"
    and "length (getBulkKeywordMetrics kp rnd keywords options) = length keywords"
    and "\<forall>r \<in> set (map normalizeDataForSEOData d). source r = dataforseo \<and> 0 < confidence r"
proof -
  let ?E = "set (map (\<lambda>r. toLowerCase (or_string (dfs_keyword r) [])) d)"
  show out: "getBulkKeywordMetrics kp rnd keywords options =
           map normalizeDataForSEOData d @
           map unavailable_record (filter (\<lambda>k. toLowerCase k \<notin> ?E) keywords)"
  proof -
    have s: "\<And>x. keyword (normalizeDataForSEOData x) = or_string (dfs_keyword x) []"
      by (simp add: normalizeDataForSEOData_def Let_def)
    have "bulk_dataforseo kp keywords options =
            Some (map normalizeDataForSEOData d @
                  map unavailable_record (filter (\<lambda>k. toLowerCase k \<notin> ?E) keywords))"
      unfolding bulk_dataforseo_def Let_def using client answer by (simp add: s)
    then show ?thesis using live by (simp add: getBulkKeywordMetrics_def)
  qed
  have "length (filter (\<lambda>k. toLowerCase k \<in> ?E) keywords) = card ?E"
    by (rule length_filter_mem_image [OF requested returned(2)])
  also have "card ?E = length d" using returned(1) by (metis distinct_card length_map)
  finally have hit: "length (filter (\<lambda>k. toLowerCase k \<in> ?E) keywords) = length d" .
  have "length (filter (\<lambda>k. toLowerCase k \<in> ?E) keywords)
          + length (filter (\<lambda>k. toLowerCase k \<notin> ?E) keywords) = length keywords"
    by (rule sum_length_filter_compl)
  with hit show "length (getBulkKeywordMetrics kp rnd keywords options) = length keywords"
    unfolding out by simp
  show "\<forall>r \<in> set (map normalizeDataForSEOData d). source r = dataforseo \<and> 0 < confidence r"
    by (auto simp: normalizeDataForSEOData_def Let_def)
qed

text \<open>
  C2 at the failing input: two keywords are requested, the Ahrefs client answers for
  one of them, and \<open>getBulkKeywordMetrics\<close> returns one record: the Ahrefs branch does
  not add \<open>unavailable\<close> records for the keywords the provider left out.
\<close>

theorem ahrefs_partial_batch_cardinality:
  "map keyword (getBulkKeywordMetrics kp_ahrefs_partial rnd_zero
                  [''seo tools'', ''content marketing''] no_options) = [''seo tools''] \<and>
   length (getBulkKeywordMetrics kp_ahrefs_partial rnd_zero
             [''seo tools'', ''content marketing''] no_options) = 1"
  by code_simp

section \<open>The number of a lexeme\<close>

text \<open>A lexeme with a mantissa other than zero and an exponent of at least -323 is
  at least \<open>10 ^ -323\<close>, which is more than \<open>2 ^ -1075\<close>: its number is not zero.\<close>

lemma zero_lexeme_code [code]:
  "zero_lexeme lx =
     (if lexeme_mantissa lx = 0 then True
      else if - 323 \<le> lexeme_exponent lx then False
      else lexeme_mantissa lx * 2 ^ 1075 \<le> 10 ^ nat (- lexeme_exponent lx))"
proof (cases "lexeme_mantissa lx = 0 \<or> 0 \<le> lexeme_exponent lx \<or> lexeme_exponent lx < - 323")
  case True
  then show ?thesis by (auto simp: zero_lexeme_def)
next
  case False
  then have m: "1 \<le> lexeme_mantissa lx" and k: "nat (- lexeme_exponent lx) \<le> 323"
    and e: "lexeme_exponent lx < 0" "- 323 \<le> lexeme_exponent lx"
    by auto
  have "(10::nat) ^ nat (- lexeme_exponent lx) \<le> 10 ^ 323"
    using k by (intro power_increasing) simp_all
  also have "(10::nat) ^ 323 < 2 ^ 1075" by simp
  also have "(2::nat) ^ 1075 \<le> lexeme_mantissa lx * 2 ^ 1075" using m by simp
  finally have "\<not> lexeme_mantissa lx * 2 ^ 1075 \<le> 10 ^ nat (- lexeme_exponent lx)" by simp
  with False e show ?thesis by (simp add: zero_lexeme_def)
qed

text \<open>The number of \<open>1e-400\<close> is zero; \<open>3e-324\<close> is the least positive double and
  \<open>2e-324\<close> is zero.\<close>

lemma zero_lexeme_tiny:
  "zero_lexeme ''1e-400'' \<and> \<not> zero_lexeme ''3e-324'' \<and> zero_lexeme ''2e-324''"
proof -
  have "lexeme_mantissa ''1e-400'' = 1" "lexeme_mantissa ''3e-324'' = 3"
    "lexeme_mantissa ''2e-324'' = 2"
    by code_simp+
  moreover have "lexeme_exponent ''1e-400'' = - 400" "lexeme_exponent ''3e-324'' = - 324"
    "lexeme_exponent ''2e-324'' = - 324"
    by code_simp+
  ultimately show ?thesis by (simp add: zero_lexeme_def)
qed

section \<open>The recursion budget of the parser\<close>

text \<open>Every successful parse consumes at least one character, and a budget of as
  many steps as characters consumed is enough for it.\<close>

lemma parse_digits_length: "parse_digits s = Some (ds, r) \<Longrightarrow> length r < length s"
proof -
  assume p: "parse_digits s = Some (ds, r)"
  then have ds: "ds = takeWhile is_digit s" "ds \<noteq> []" "r = dropWhile is_digit s"
    by (auto simp: parse_digits_def Let_def split: if_splits)
  have "length (takeWhile is_digit s) + length (dropWhile is_digit s) = length s"
    by (metis length_append takeWhile_dropWhile_id)
  with ds show ?thesis by (cases "takeWhile is_digit s") auto
qed

lemma parse_int_part_length: "parse_int_part s = Some (ds, r) \<Longrightarrow> length r < length s"
  by (cases s) (auto simp: parse_int_part_def split: if_splits dest: parse_digits_length)

lemma parse_frac_part_length: "parse_frac_part s = Some (ds, r) \<Longrightarrow> length r \<le> length s"
  by (cases s) (auto simp: parse_frac_part_def split: if_splits option.splits
      dest!: parse_digits_length)

lemma parse_exp_part_length: "parse_exp_part s = Some (ds, r) \<Longrightarrow> length r \<le> length s"
proof (cases s)
  case Nil
  assume "parse_exp_part s = Some (ds, r)"
  with Nil show ?thesis by (simp add: parse_exp_part_def)
next
  case (Cons c cs)
  assume p: "parse_exp_part s = Some (ds, r)"
  show ?thesis
  proof (cases "c = CHR ''e'' \<or> c = CHR ''E''")
    case False
    with p Cons show ?thesis by (auto simp: parse_exp_part_def)
  next
    case True
    show ?thesis
    proof (cases cs)
      case Nil
      with p Cons True show ?thesis by (auto simp: parse_exp_part_def)
    next
      case (Cons sg cs')
      with p \<open>s = c # cs\<close> True show ?thesis
        by (auto simp: parse_exp_part_def split: if_splits option.splits
            dest!: parse_digits_length)
    qed
  qed
qed

lemma parse_number_length: "parse_number s = Some (lx, r) \<Longrightarrow> length r < length s"
proof -
  assume p: "parse_number s = Some (lx, r)"
  obtain sign s1 where s1:
    "(case s of c # cs \<Rightarrow> if c = CHR ''-'' then ([c], cs) else ([], s) | [] \<Rightarrow> ([], s)) = (sign, s1)"
    by (cases "(case s of c # cs \<Rightarrow> if c = CHR ''-'' then ([c], cs) else ([], s) | [] \<Rightarrow> ([], s))")
  then have l1: "length s1 \<le> length s" by (cases s) (auto split: if_splits)
  from p s1 obtain ip s2 where ip: "parse_int_part s1 = Some (ip, s2)"
    by (auto simp: parse_number_def split: option.splits)
  from p s1 ip obtain fp s3 where fp: "parse_frac_part s2 = Some (fp, s3)"
    by (auto simp: parse_number_def split: option.splits)
  from p s1 ip fp obtain ep where ep: "parse_exp_part s3 = Some (ep, r)"
    by (auto simp: parse_number_def split: option.splits)
  from parse_int_part_length [OF ip] parse_frac_part_length [OF fp] parse_exp_part_length [OF ep] l1
  show ?thesis by simp
qed

lemma parse_literal_length: "parse_literal s = Some (v, r) \<Longrightarrow> length r < length s"
proof -
  assume p: "parse_literal s = Some (v, r)"
  have lit: "length (drop n s) < length s" if "take n s = w" "w \<noteq> []" "0 < n" for n w
    using that by (cases s) auto
  show ?thesis
  proof (cases "take 4 s = ''true''")
    case True
    with p have "r = drop 4 s" by (simp add: parse_literal_def)
    with True show ?thesis using lit [of 4 "''true''"] by simp
  next
    case nt: False
    show ?thesis
    proof (cases "take 5 s = ''false''")
      case True
      with p nt have "r = drop 5 s" by (simp add: parse_literal_def)
      with True show ?thesis using lit [of 5 "''false''"] by simp
    next
      case nf: False
      show ?thesis
      proof (cases "take 4 s = ''null''")
        case True
        with p nt nf have "r = drop 4 s" by (simp add: parse_literal_def)
        with True show ?thesis using lit [of 4 "''null''"] by simp
      next
        case False
        with p nt nf obtain lx where "parse_number s = Some (lx, r)"
          by (auto simp: parse_literal_def split: option.splits)
        from parse_number_length [OF this] show ?thesis .
      qed
    qed
  qed
qed

lemma parse_string_chars_length:
  "parse_string_chars s = Some (str, r) \<Longrightarrow> length r < length s"
proof (induction s arbitrary: str r rule: parse_string_chars.induct)
  case 1
  then show ?case by simp
next
  case (2 c cs)
  show ?case
  proof (cases "c = CHR 0x22")
    case True
    with "2.prems" show ?thesis by simp
  next
    case nq: False
    show ?thesis
    proof (cases "c = CHR 0x5C")
      case False
      with "2.prems" nq obtain s' where p: "parse_string_chars cs = Some (s', r)"
        by (auto split: if_splits option.splits)
      from "2.IH"(3) [OF nq False _ p] "2.prems" nq False have "length r < length cs"
        by (auto split: if_splits)
      then show ?thesis by simp
    next
      case True
      from "2.prems" nq True obtain e cs' where cs: "cs = e # cs'"
        by (cases cs) auto
      show ?thesis
      proof (cases "e = CHR ''u''")
        case False
        with "2.prems" nq True cs obtain ch s' where "unescape e = Some ch"
          and p: "parse_string_chars cs' = Some (s', r)"
          by (auto split: option.splits)
        from "2.IH"(2) [OF nq True cs False this] have "length r < length cs'" .
        with cs show ?thesis by simp
      next
        case eu: True
        from "2.prems" nq True cs eu obtain a b c' d rest s' where
          cs': "cs' = a # b # c' # d # rest" and u: "unicode_escape a b c' d"
          and p: "parse_string_chars rest = Some (s', r)"
          by (auto split: list.splits option.splits if_splits)
        from "2.IH"(1) [OF nq True cs eu cs' refl refl refl u p] have "length r < length rest" .
        with cs cs' show ?thesis by simp
      qed
    qed
  qed
qed

lemma length_skip_ws: "length (skip_ws s) \<le> length s"
  by (simp add: skip_ws_def length_dropWhile_le)

lemma skip_ws_Cons_length: "skip_ws s = c # cs \<Longrightarrow> length cs < length s"
  using length_skip_ws [of s] by simp

lemma parser_fuel:
  "(\<forall>s v r. parse_value n s = Some (v, r) \<longrightarrow>
      length r < length s \<and> (\<forall>m. length s - length r \<le> m \<longrightarrow> parse_value m s = Some (v, r))) \<and>
   (\<forall>s vs r. parse_elems n s = Some (vs, r) \<longrightarrow>
      length r < length s \<and> (\<forall>m. length s - length r \<le> m \<longrightarrow> parse_elems m s = Some (vs, r))) \<and>
   (\<forall>s kvs r. parse_members n s = Some (kvs, r) \<longrightarrow>
      length r < length s \<and> (\<forall>m. length s - length r \<le> m \<longrightarrow> parse_members m s = Some (kvs, r)))"
proof (induction n)
  case 0
  show ?case by simp
next
  case (Suc n)
  then have IHv: "\<And>s v r. parse_value n s = Some (v, r) \<Longrightarrow>
      length r < length s \<and> (\<forall>m. length s - length r \<le> m \<longrightarrow> parse_value m s = Some (v, r))"
    and IHe: "\<And>s vs r. parse_elems n s = Some (vs, r) \<Longrightarrow>
      length r < length s \<and> (\<forall>m. length s - length r \<le> m \<longrightarrow> parse_elems m s = Some (vs, r))"
    and IHm: "\<And>s kvs r. parse_members n s = Some (kvs, r) \<Longrightarrow>
      length r < length s \<and> (\<forall>m. length s - length r \<le> m \<longrightarrow> parse_members m s = Some (kvs, r))"
    by blast+
  have val: "length r < length s \<and> (\<forall>m. length s - length r \<le> m \<longrightarrow> parse_value m s = Some (v, r))"
    if p: "parse_value (Suc n) s = Some (v, r)" for s v r
  proof -
    from p obtain c cs where sk: "skip_ws s = c # cs"
      by (cases "skip_ws s") auto
    have l0: "length cs < length s" by (rule skip_ws_Cons_length [OF sk])
    show ?thesis
    proof (cases "c = CHR ''{''")
      case True
      from p sk True obtain d ds where sk2: "skip_ws cs = d # ds"
        by (cases "skip_ws cs") auto
      show ?thesis
      proof (cases "d = CHR ''}''")
        case d: True
        with p sk sk2 True have r: "r = ds" "v = JObject []" by simp_all
        have l: "length r < length s" using skip_ws_Cons_length [OF sk2] l0 r by simp
        have "parse_value m s = Some (v, r)" if "length s - length r \<le> m" for m
        proof -
          from that l obtain m' where "m = Suc m'" by (cases m) auto
          with sk sk2 True d r show ?thesis by simp
        qed
        with l show ?thesis by blast
      next
        case False
        with p sk sk2 True obtain kvs where m: "parse_members n cs = Some (kvs, r)"
          and v: "v = JObject kvs"
          by (auto split: option.splits)
        from IHm [OF m] have l1: "length r < length cs"
          and f: "\<And>m. length cs - length r \<le> m \<Longrightarrow> parse_members m cs = Some (kvs, r)"
          by blast+
        have l: "length r < length s" using l0 l1 by simp
        have "parse_value m s = Some (v, r)" if "length s - length r \<le> m" for m
        proof -
          from that l obtain m' where m': "m = Suc m'" by (cases m) auto
          with that l0 l1 have "length cs - length r \<le> m'" by simp
          from f [OF this] m' sk sk2 True False v show ?thesis by simp
        qed
        with l show ?thesis by blast
      qed
    next
      case nb: False
      show ?thesis
      proof (cases "c = CHR ''[''")
        case True
        from p sk nb True obtain d ds where sk2: "skip_ws cs = d # ds"
          by (cases "skip_ws cs") auto
        show ?thesis
        proof (cases "d = CHR '']''")
          case d: True
          with p sk sk2 nb True have r: "r = ds" "v = JArray []" by simp_all
          have l: "length r < length s" using skip_ws_Cons_length [OF sk2] l0 r by simp
          have "parse_value m s = Some (v, r)" if "length s - length r \<le> m" for m
          proof -
            from that l obtain m' where "m = Suc m'" by (cases m) auto
            with sk sk2 nb True d r show ?thesis by simp
          qed
          with l show ?thesis by blast
        next
          case False
          with p sk sk2 nb True obtain vs where e: "parse_elems n cs = Some (vs, r)"
            and v: "v = JArray vs"
            by (auto split: option.splits)
          from IHe [OF e] have l1: "length r < length cs"
            and f: "\<And>m. length cs - length r \<le> m \<Longrightarrow> parse_elems m cs = Some (vs, r)"
            by blast+
          have l: "length r < length s" using l0 l1 by simp
          have "parse_value m s = Some (v, r)" if "length s - length r \<le> m" for m
          proof -
            from that l obtain m' where m': "m = Suc m'" by (cases m) auto
            with that l0 l1 have "length cs - length r \<le> m'" by simp
            from f [OF this] m' sk sk2 nb True False v show ?thesis by simp
          qed
          with l show ?thesis by blast
        qed
      next
        case nk: False
        show ?thesis
        proof (cases "c = CHR 0x22")
          case True
          with p sk nb nk obtain str where str: "parse_string_chars cs = Some (str, r)"
            and v: "v = JString str"
            by (auto split: option.splits)
          have l: "length r < length s" using parse_string_chars_length [OF str] l0 by simp
          have "parse_value m s = Some (v, r)" if "length s - length r \<le> m" for m
          proof -
            from that l obtain m' where "m = Suc m'" by (cases m) auto
            with sk nb nk True str v show ?thesis by simp
          qed
          with l show ?thesis by blast
        next
          case False
          with p sk nb nk have lit: "parse_literal (c # cs) = Some (v, r)" by simp
          have l: "length r < length s"
            using parse_literal_length [OF lit] length_skip_ws [of s] sk by simp
          have "parse_value m s = Some (v, r)" if "length s - length r \<le> m" for m
          proof -
            from that l obtain m' where "m = Suc m'" by (cases m) auto
            with sk nb nk False lit show ?thesis by simp
          qed
          with l show ?thesis by blast
        qed
      qed
    qed
  qed
  have elems: "length r < length s \<and> (\<forall>m. length s - length r \<le> m \<longrightarrow> parse_elems m s = Some (vs, r))"
    if p: "parse_elems (Suc n) s = Some (vs, r)" for s vs r
  proof -
    from p obtain v r1 where v: "parse_value n s = Some (v, r1)"
      by (auto split: option.splits)
    from p v obtain c cs where sk: "skip_ws r1 = c # cs"
      by (cases "skip_ws r1") auto
    from IHv [OF v] have l1: "length r1 < length s"
      and fv: "\<And>m. length s - length r1 \<le> m \<Longrightarrow> parse_value m s = Some (v, r1)"
      by blast+
    have l2: "length cs < length r1" by (rule skip_ws_Cons_length [OF sk])
    show ?thesis
    proof (cases "c = CHR '',''")
      case True
      with p v sk obtain vs' where e: "parse_elems n cs = Some (vs', r)" and vs: "vs = v # vs'"
        by (auto split: option.splits)
      from IHe [OF e] have l3: "length r < length cs"
        and fe: "\<And>m. length cs - length r \<le> m \<Longrightarrow> parse_elems m cs = Some (vs', r)"
        by blast+
      have l: "length r < length s" using l1 l2 l3 by simp
      have "parse_elems m s = Some (vs, r)" if "length s - length r \<le> m" for m
      proof -
        from that l obtain m' where m': "m = Suc m'" by (cases m) auto
        from that m' l1 l2 l3 have "length s - length r1 \<le> m'" "length cs - length r \<le> m'"
          by simp_all
        from fv [OF this(1)] fe [OF this(2)] m' sk True vs show ?thesis by simp
      qed
      with l show ?thesis by blast
    next
      case False
      with p v sk have c: "c = CHR '']''" and r: "r = cs" and vs: "vs = [v]"
        by (auto split: if_splits)
      have l: "length r < length s" using l1 l2 r by simp
      have "parse_elems m s = Some (vs, r)" if "length s - length r \<le> m" for m
      proof -
        from that l obtain m' where m': "m = Suc m'" by (cases m) auto
        from that m' l1 l2 r have "length s - length r1 \<le> m'" by simp
        from fv [OF this] m' sk False c r vs show ?thesis by simp
      qed
      with l show ?thesis by blast
    qed
  qed
  have members: "length r < length s \<and>
      (\<forall>m. length s - length r \<le> m \<longrightarrow> parse_members m s = Some (kvs, r))"
    if p: "parse_members (Suc n) s = Some (kvs, r)" for s kvs r
  proof -
    from p obtain q cs where sk: "skip_ws s = q # cs"
      by (cases "skip_ws s") auto
    from p sk have q: "q = CHR 0x22" by (auto split: if_splits)
    from p sk q obtain k r0 where str: "parse_string_chars cs = Some (k, r0)"
      by (auto split: option.splits)
    from p sk q str obtain c r1 where sk1: "skip_ws r0 = c # r1"
      by (cases "skip_ws r0") auto
    from p sk q str sk1 have c: "c = CHR '':''" by (auto split: if_splits)
    from p sk q str sk1 c obtain v r2 where v: "parse_value n r1 = Some (v, r2)"
      by (auto split: option.splits)
    from p sk q str sk1 c v obtain d r3 where sk2: "skip_ws r2 = d # r3"
      by (cases "skip_ws r2") auto
    from IHv [OF v] have lv: "length r2 < length r1"
      and fv: "\<And>m. length r1 - length r2 \<le> m \<Longrightarrow> parse_value m r1 = Some (v, r2)"
      by blast+
    have l1: "length r1 < length s"
      using skip_ws_Cons_length [OF sk] parse_string_chars_length [OF str]
        skip_ws_Cons_length [OF sk1] by simp
    have l2: "length r3 < length r2" by (rule skip_ws_Cons_length [OF sk2])
    show ?thesis
    proof (cases "d = CHR '',''")
      case True
      with p sk q str sk1 c v sk2 obtain kvs' where m: "parse_members n r3 = Some (kvs', r)"
        and kvs: "kvs = (k, v) # kvs'"
        by (auto split: option.splits)
      from IHm [OF m] have l3: "length r < length r3"
        and fm: "\<And>m. length r3 - length r \<le> m \<Longrightarrow> parse_members m r3 = Some (kvs', r)"
        by blast+
      have l: "length r < length s" using l1 lv l2 l3 by simp
      have "parse_members m s = Some (kvs, r)" if "length s - length r \<le> m" for m
      proof -
        from that l obtain m' where m': "m = Suc m'" by (cases m) auto
        from that m' l1 lv l2 l3 have "length r1 - length r2 \<le> m'" "length r3 - length r \<le> m'"
          by simp_all
        from fv [OF this(1)] fm [OF this(2)] m' sk q str sk1 c sk2 True kvs show ?thesis by simp
      qed
      with l show ?thesis by blast
    next
      case False
      with p sk q str sk1 c v sk2 have d: "d = CHR ''}''" and r: "r = r3" and kvs: "kvs = [(k, v)]"
        by (auto split: if_splits)
      have l: "length r < length s" using l1 lv l2 r by simp
      have "parse_members m s = Some (kvs, r)" if "length s - length r \<le> m" for m
      proof -
        from that l obtain m' where m': "m = Suc m'" by (cases m) auto
        from that m' l1 lv l2 r have "length r1 - length r2 \<le> m'" by simp
        from fv [OF this] m' sk q str sk1 c sk2 False d r kvs show ?thesis by simp
      qed
      with l show ?thesis by blast
    qed
  qed
  from val elems members show ?case by blast
qed

text \<open>Whatever the parser yields with some budget, it yields with the budget that
  \<open>JSON_parse\<close> gives it: the result of \<open>JSON_parse\<close> does not depend on the
  budget.\<close>

lemma JSON_parse_fuel:
  assumes "parse_value n s = Some (v, r)" and "skip_ws r = []"
  shows "JSON_parse s = Some v"
proof -
  from parser_fuel [of n] assms(1)
  have "\<forall>m. length s - length r \<le> m \<longrightarrow> parse_value m s = Some (v, r)" by blast
  moreover have "length s - length r \<le> 2 * length s + 2" by simp
  ultimately have "parse_value (2 * length s + 2) s = Some (v, r)" by blast
  with assms(2) show ?thesis by (simp add: JSON_parse_def)
qed

section \<open>Properties of the tolerant JSON extractor\<close>

text \<open>
  C7.  Scenario C: the text is a JSON array in a \<open>```json\<close> fence followed by prose.
  The direct parse fails (the closing fence is not at the end of the text), the
  balanced-bracket scan isolates the array, and the extractor returns the array of one
  object, whose \<open>keyword\<close> is \<open>a\<close>.  The adapter maps it to one keyword \<open>a\<close>, and
  does the same when it is handed the text itself.
\<close>

theorem scenario_c_one_object:
  "parse_response_text scenario_c
     = ParsedJson (JArray [JObject [(''keyword'', JString ''a''),
                                     (''intent'', JString ''commercial''),
                                     (''relevance_score'', JNumber ''0.8'')]]) \<and>
   property (JObject [(''keyword'', JString ''a''), (''intent'', JString ''commercial''),
                      (''relevance_score'', JNumber ''0.8'')]) ''keyword'' = Some (JString ''a'') \<and>
   map_sum id (map mk_keyword) (expandKeywords_mapped (parse_response_text scenario_c))
     = Inr [JString ''a''] \<and>
   map_sum id (map mk_keyword) (expandKeywords_mapped (ParsedText scenario_c))
     = Inr [JString ''a'']"
  by code_simp

text \<open>
  C6 at the failing input.  The text holds the valid array \<open>[{"keyword":"a]b"}]\<close>
  between two words.  \<open>findBalancedJSON\<close> counts the \<open>]\<close> inside the quoted string
  \<open>a]b\<close> as the closing bracket and returns the unparsable \<open>[{"keyword":"a]\<close>; the
  extractor ends with the raw text and the adapter with no keyword.  The scan for
  complete objects, in contrast, skips the \<open>}\<close> inside a quoted string.
\<close>

theorem bracket_in_string_ends_scan:
  "findBalancedJSON bracket_in_string CHR ''['' CHR '']'' False = Some ''[{\"keyword\":\"a]'' \<and>
   JSON_parse ''[{\"keyword\":\"a]b\"}]'' = Some (JArray [JObject [(''keyword'', JString ''a]b'')]]) \<and>
   parse_response_text bracket_in_string = ParsedText bracket_in_string \<and>
   expandKeywords_mapped (ParsedText bracket_in_string) = Inr [] \<and>
   salvage_scan brace_in_string = [''{\"keyword\":\"a}b\"}'']"
  by code_simp

lemma sort_cong_mset: "mset xs = mset ys \<Longrightarrow> sort xs = sort (ys :: 'a :: linorder list)"
  by (metis properties_for_sort sorted_sort mset_sort)

lemma expandToDream100_cacheKey_permutation:
  "mset xs = mset ys \<Longrightarrow>
   expandToDream100_cacheKey n focus xs = expandToDream100_cacheKey n focus ys"
  by (simp add: expandToDream100_cacheKey_def sort_cong_mset [of xs ys])

lemma AhrefsClient_cacheKey_permutation:
  "mset xs = mset ys \<Longrightarrow>
   AhrefsClient_getKeywordMetrics_cacheKey country xs =
   AhrefsClient_getKeywordMetrics_cacheKey country ys"
  by (simp add: AhrefsClient_getKeywordMetrics_cacheKey_def sort_cong_mset [of xs ys])

text \<open>
  C4 at the failing input.  The two lists hold the same keywords in a different order;
  the cache key that \<open>DataForSEOClient.getKeywordData\<close> computes for its one batch is
  built from the first keywords in the order given, so the two keys differ.  (The keys
  of \<open>GeminiClient.expandToDream100\<close> and \<open>AhrefsClient.getKeywordMetrics\<close> are the
  same for every permutation, by the two lemmas above.)
\<close>

theorem dataforseo_cache_key_depends_on_order:
  "mset [''seo tools'', ''content marketing''] = mset [''content marketing'', ''seo tools''] \<and>
   DataForSEOClient_getKeywordData_cacheKeys 2840 ''en'' [''seo tools'', ''content marketing'']
     = [''dfs:labs:bulk:2840:en:seo tools,content marketing''] \<and>
   DataForSEOClient_getKeywordData_cacheKeys 2840 ''en'' [''content marketing'', ''seo tools'']
     = [''dfs:labs:bulk:2840:en:content marketing,seo tools'']"
  by code_simp

text \<open>
  C8.  A request whose cache key has an unexpired entry (\<open>now < timestamp + ttl\<close>)
  returns the cached data with processing time 0 and leaves the client as it was: the
  rate limiter, the circuit breaker, the count of network calls, the metrics (with
  \<open>totalCost\<close>) and the cache are the ones before the call.  When the entry is
  expired or absent the request is a miss: it goes on to the rate limiter, whose state
  after the call is the one \<open>tryConsume\<close> returns.
\<close>

theorem cache_hit_frame:
  assumes "cache_key_given options = Some key"
  shows "(unexpired_entry client (now env) key \<longrightarrow>
            (\<exists>cached. cache client key = Some cached \<and>
               makeLLMRequest ops env client prompt options
                 = (Inr (cached_response (entry_data cached) (now env)), client) \<and>
               resp_data (cached_response (entry_data cached) (now env)) = resp_data (entry_data cached) \<and>
               processing_time (cached_response (entry_data cached) (now env)) = 0)) \<and>
         (\<not> unexpired_entry client (now env) key \<longrightarrow>
            makeLLMRequest ops env client prompt options
              = after_cache_miss ops env client prompt options \<and>
            rateLimiter (snd (makeLLMRequest ops env client prompt options))
              = snd (tryConsume ops (rateLimiter client) (now env)))"
proof (intro conjI impI)
  assume fresh: "unexpired_entry client (now env) key"
  then obtain cached where c: "cache client key = Some cached"
      and t: "now env < entry_timestamp cached + entry_ttl cached"
    by (auto simp: unexpired_entry_def split: option.splits)
  have "makeLLMRequest ops env client prompt options
          = (Inr (cached_response (entry_data cached) (now env)), client)"
    using assms c t by (simp add: makeLLMRequest_def getLLMCache_def)
  then show "\<exists>cached. cache client key = Some cached \<and>
               makeLLMRequest ops env client prompt options
                 = (Inr (cached_response (entry_data cached) (now env)), client) \<and>
               resp_data (cached_response (entry_data cached) (now env)) = resp_data (entry_data cached) \<and>
               processing_time (cached_response (entry_data cached) (now env)) = 0"
    using c by (simp add: cached_response_def)
next
  assume stale: "\<not> unexpired_entry client (now env) key"
  then have miss: "getLLMCache client (now env) key = None"
    by (auto simp: unexpired_entry_def getLLMCache_def split: option.splits)
  then show m: "makeLLMRequest ops env client prompt options
              = after_cache_miss ops env client prompt options"
    using assms by (simp add: makeLLMRequest_def)
  show "rateLimiter (snd (makeLLMRequest ops env client prompt options))
              = snd (tryConsume ops (rateLimiter client) (now env))"
    unfolding m
    by (simp add: after_cache_miss_def request_failed_def request_succeeded_def setLLMCache_def
          Let_def split: prod.splits sum.splits option.splits)
qed

text \<open>
  C9.  When the rate limiter is asked (the cache did not answer) and \<open>tryConsume\<close>
  returns false, \<open>makeLLMRequest\<close> rejects with the rate-limit error: code
  \<open>RATE_LIMIT_ERROR\<close>, status 429, retryable, and a \<open>retryAfter\<close> of
  \<open>ceil((getNextRefillTime() - now) / 1000)\<close>; \<open>rateLimitHits\<close> grows by one, and no
  network call is made (the call count, the circuit breaker and the cache are unchanged).
\<close>

theorem rate_limit_rejection:
  assumes "\<not> cache_hit client (now env) options"
      and "\<not> fst (tryConsume ops (rateLimiter client) (now env))"
  shows "fst (makeLLMRequest ops env client prompt options)
           = Inl (rate_limit_error ops (snd (tryConsume ops (rateLimiter client) (now env))) (now env)) \<and>
         err_code (rate_limit_error ops (snd (tryConsume ops (rateLimiter client) (now env))) (now env))
           = Some ''RATE_LIMIT_ERROR'' \<and>
         err_statusCode (rate_limit_error ops (snd (tryConsume ops (rateLimiter client) (now env))) (now env))
           = Some 429 \<and>
         err_retryable (rate_limit_error ops (snd (tryConsume ops (rateLimiter client) (now env))) (now env))
           = Some True \<and>
         map_option rl_retryAfter
           (err_rateLimit (rate_limit_error ops (snd (tryConsume ops (rateLimiter client) (now env))) (now env)))
           = Some \<lceil>(of_int (getNextRefillTime ops (snd (tryConsume ops (rateLimiter client) (now env))) (now env)
                            - now env) :: rat) / 1000\<rceil> \<and>
         rateLimitHits (metrics (snd (makeLLMRequest ops env client prompt options)))
           = rateLimitHits (metrics client) + 1 \<and>
         networkCalls (snd (makeLLMRequest ops env client prompt options)) = networkCalls client \<and>
         circuitBreaker (snd (makeLLMRequest ops env client prompt options)) = circuitBreaker client \<and>
         cache (snd (makeLLMRequest ops env client prompt options)) = cache client"
proof -
  have miss: "(case cache_key_given options of
                 Some key \<Rightarrow> getLLMCache client (now env) key | None \<Rightarrow> None) = None"
    using assms(1)
    by (auto simp: cache_hit_def unexpired_entry_def getLLMCache_def split: option.splits)
  have m: "makeLLMRequest ops env client prompt options
             = after_cache_miss ops env client prompt options"
    by (simp add: makeLLMRequest_def miss)
  obtain ok limiter where tc: "tryConsume ops (rateLimiter client) (now env) = (ok, limiter)"
    by (cases "tryConsume ops (rateLimiter client) (now env)")
  with assms(2) have "\<not> ok" by simp
  with tc show ?thesis
    unfolding m by (simp add: after_cache_miss_def rate_limit_error_def plain_error_def)
qed

text \<open>
  C10.  \<open>expandToDream100\<close> rejects a request with no seed keyword or with a target
  count above 150, and \<open>classifyIntent\<close> rejects a request with no keyword or with
  more than 500 keywords; in each case the error is the validation error and the client
  (cache, rate limiter, circuit breaker, network calls, metrics) is unchanged, whatever
  its state and whatever the environment would have answered.
\<close>

theorem input_limits_enforced:
  "(seed_keywords request = [] \<longrightarrow>
      expandToDream100 ops fullPrompt env envs client request
        = (Inl (plain_error ''At least one seed keyword is required''), client)) \<and>
   (seed_keywords request \<noteq> [] \<and> 150 < target_count request \<longrightarrow>
      expandToDream100 ops fullPrompt env envs client request
        = (Inl (plain_error
             ''Maximum 150 keywords per expansion to maintain quality and avoid token limits''),
           client)) \<and>
   (ic_keywords request' = [] \<longrightarrow>
      classifyIntent ops fullPrompt' env client request'
        = (Inl (plain_error ''At least one keyword is required''), client)) \<and>
   (ic_keywords request' \<noteq> [] \<and> 500 < length (ic_keywords request') \<longrightarrow>
      classifyIntent ops fullPrompt' env client request'
        = (Inl (plain_error ''Maximum 500 keywords per classification request''), client))"
  by (simp add: expandToDream100_def classifyIntent_def)

theorem cache_hit_frame_witness:
  "cache_key_given hit_options = Some ''expansion:10:mixed:seo'' \<and>
   unexpired_entry sample_client (now (env_at 6000)) ''expansion:10:mixed:seo'' \<and>
   makeLLMRequest bucket_ops (env_at 6000) sample_client ''prompt'' hit_options
     = (Inr (cached_response sample_response 6000), sample_client) \<and>
   \<not> unexpired_entry sample_client (now (env_at 86401000)) ''expansion:10:mixed:seo'' \<and>
   makeLLMRequest bucket_ops (env_at 86401000) sample_client ''prompt'' hit_options
     = after_cache_miss bucket_ops (env_at 86401000) sample_client ''prompt'' hit_options"
  using cache_hit_frame [of hit_options "''expansion:10:mixed:seo''" sample_client "env_at 6000"
          bucket_ops "''prompt''"]
        cache_hit_frame [of hit_options "''expansion:10:mixed:seo''" sample_client
          "env_at 86401000" bucket_ops "''prompt''"]
  by (simp add: cache_key_given_def hit_options_def unexpired_entry_def sample_client_def
        env_at_def)

theorem rate_limit_rejection_witness:
  "\<not> cache_hit sample_client (now (env_at 6000)) miss_options \<and>
   \<not> fst (tryConsume bucket_ops (rateLimiter sample_client) (now (env_at 6000))) \<and>
   fst (makeLLMRequest bucket_ops (env_at 6000) sample_client ''prompt'' miss_options)
     = Inl (rate_limit_error bucket_ops
              (snd (tryConsume bucket_ops (rateLimiter sample_client) (now (env_at 6000)))) 6000) \<and>
   map_option rl_retryAfter
     (err_rateLimit (rate_limit_error bucket_ops
        (snd (tryConsume bucket_ops (rateLimiter sample_client) (now (env_at 6000)))) 6000))
     = Some 60 \<and>
   rateLimitHits (metrics (snd (makeLLMRequest bucket_ops (env_at 6000) sample_client ''prompt''
                                  miss_options))) = 1"
proof -
  have miss: "\<not> cache_hit sample_client (now (env_at 6000)) miss_options"
    by (simp add: cache_hit_def cache_key_given_def miss_options_def unexpired_entry_def
          sample_client_def)
  have full: "\<not> fst (tryConsume bucket_ops (rateLimiter sample_client) (now (env_at 6000)))"
    by (simp add: bucket_ops_def bucket_tryConsume_def bucket_refill_def sample_client_def
          empty_bucket_def env_at_def Let_def)
  have after: "map_option rl_retryAfter
     (err_rateLimit (rate_limit_error bucket_ops
        (snd (tryConsume bucket_ops (rateLimiter sample_client) (now (env_at 6000)))) 6000))
     = Some 60"
    by (simp add: rate_limit_error_def plain_error_def bucket_ops_def bucket_tryConsume_def
          bucket_refill_def sample_client_def empty_bucket_def env_at_def Let_def)
  from rate_limit_rejection [OF miss full, of "''prompt''"] miss full after
  show ?thesis
    by (simp add: env_at_def sample_client_def zero_metrics_def)
qed

theorem input_limits_enforced_witness:
  "seed_keywords no_seed_request = [] \<and>
   expandToDream100 bucket_ops (\<lambda>r. ''prompt'') (env_at 6000) [] sample_client no_seed_request
     = (Inl (plain_error ''At least one seed keyword is required''), sample_client) \<and>
   seed_keywords large_request \<noteq> [] \<and> 150 < target_count large_request \<and>
   expandToDream100 bucket_ops (\<lambda>r. ''prompt'') (env_at 6000) [] sample_client large_request
     = (Inl (plain_error
          ''Maximum 150 keywords per expansion to maintain quality and avoid token limits''),
        sample_client) \<and>
   ic_keywords no_keyword_request = [] \<and>
   classifyIntent bucket_ops (\<lambda>r. ''prompt'') (env_at 6000) sample_client no_keyword_request
     = (Inl (plain_error ''At least one keyword is required''), sample_client) \<and>
   ic_keywords long_request \<noteq> [] \<and> 500 < length (ic_keywords long_request) \<and>
   classifyIntent bucket_ops (\<lambda>r. ''prompt'') (env_at 6000) sample_client long_request
     = (Inl (plain_error ''Maximum 500 keywords per classification request''), sample_client)"
  using input_limits_enforced [of no_seed_request bucket_ops "\<lambda>r. ''prompt''" "env_at 6000" "[]"
          sample_client no_keyword_request "\<lambda>r. ''prompt''"]
        input_limits_enforced [of large_request bucket_ops "\<lambda>r. ''prompt''" "env_at 6000" "[]"
          sample_client long_request "\<lambda>r. ''prompt''"]
  by (simp add: no_seed_request_def large_request_def no_keyword_request_def long_request_def)

section \<open>Salvaging a truncated array\<close>

lemma ctx_run_Nil [simp]: "ctx_run st [] = st"
  by (simp add: ctx_run_def)

lemma ctx_run_Cons [simp]: "ctx_run st (c # cs) = ctx_run (ctx_step st c) cs"
  by (simp add: ctx_run_def)

lemma ctx_run_append: "ctx_run st (xs @ ys) = ctx_run (ctx_run st xs) ys"
  by (simp add: ctx_run_def)

lemma ctx_above_append:
  "ctx_above d0 b0 st (xs @ ys) \<longleftrightarrow> ctx_above d0 b0 st xs \<and> ctx_above d0 b0 (ctx_run st xs) ys"
  by (induction xs arbitrary: st) (auto split: prod.splits)


lemma plain_step: "plain_char c \<Longrightarrow> ctx_step (False, False, d, b) c = (False, False, d, b)"
  by (auto simp: plain_char_def)

lemma neutral_Nil: "neutral []"
  by (simp add: neutral_def)

lemma neutral_append: "neutral xs \<Longrightarrow> neutral ys \<Longrightarrow> neutral (xs @ ys)"
  by (simp add: neutral_def ctx_run_append ctx_above_append)

lemma neutral_plain1: "plain_char c \<Longrightarrow> neutral [c]"
  by (simp add: neutral_def plain_step del: ctx_step.simps)

lemma neutral_plain: "\<forall>c \<in> set cs. plain_char c \<Longrightarrow> neutral cs"
proof (induction cs)
  case Nil
  then show ?case by (simp add: neutral_Nil)
next
  case (Cons c cs)
  then have "neutral [c]" "neutral cs" by (simp_all add: neutral_plain1)
  then show ?case using neutral_append [of "[c]" cs] by simp
qed









lemma is_json_ws_plain: "is_json_ws c \<Longrightarrow> plain_char c"
  by (auto simp: is_json_ws_def plain_char_def)


lemma consumes_refl: "consumes s s"
  by (simp add: consumes_def neutral_Nil)


lemma consumes_plain_prefix: "\<forall>c \<in> set w. plain_char c \<Longrightarrow> consumes (w @ r) r"
  unfolding consumes_def using neutral_plain by blast


lemma consumes_skip_ws: "consumes s (skip_ws s)"
proof -
  have "s = takeWhile is_json_ws s @ skip_ws s"
    by (simp add: skip_ws_def)
  moreover have "\<forall>c \<in> set (takeWhile is_json_ws s). plain_char c"
    by (auto dest: set_takeWhileD is_json_ws_plain)
  ultimately show ?thesis
    using consumes_plain_prefix [of "takeWhile is_json_ws s" "skip_ws s"] by simp
qed

lemma consumes_skip_ws_eq: "skip_ws s = r \<Longrightarrow> consumes s r"
  using consumes_skip_ws by blast


















lemma salvage_step_ctx:
  "ctx_step (sal_ctx st b) c = (i, e, d, b') \<Longrightarrow>
   inString (salvage_step st c) = i \<and> escapeNext (salvage_step st c) = e \<and>
   braceDepth (salvage_step st c) = d"
  by (auto simp: sal_ctx_def salvage_step_def split: if_splits)






lemma at_top_after_object:
  "at_top st \<Longrightarrow> at_top (st \<lparr> objectMatches := ms, currentObject := [] \<rparr>)"
  by (simp add: at_top_def)




































lemma keyword_property:
  "property (JObject kvs) ''keyword'' =
     (if keyword_fields (JObject kvs) = [] then None
      else Some (last (keyword_fields (JObject kvs))))"
proof (induction kvs rule: rev_induct)
  case Nil
  show ?case by (simp add: keyword_fields_def)
next
  case (snoc kv kvs)
  obtain k v where kv: "kv = (k, v)" by (cases kv)
  from snoc show ?case by (simp add: kv keyword_fields_def)
qed

lemma has_keyword_nonempty: "has_keyword (Some (JObject kvs)) = keyword_nonempty (JObject kvs)"
proof (cases "keyword_fields (JObject kvs) = []")
  case True
  then show ?thesis
    by (simp add: has_keyword_def keyword_nonempty_def keyword_property del: property.simps)
next
  case False
  then show ?thesis
    by (cases "last (keyword_fields (JObject kvs))")
       (simp_all add: has_keyword_def keyword_nonempty_def keyword_property
          del: property.simps)
qed






text \<open>The other conditions are needed as well.  A closing bracket inside a string of a
  complete object ends the scan for the array, which does not track quoted strings, and
  the raw text comes back; a code fence inside the truncated object and a quote before
  the array each change what the extractor returns.\<close>

lemma truncated_array_other_limits:
  "well_formed_items bracket_items \<and>
   recovered_objects bracket_items
     = [JObject [(''keyword'', JString ''a]'')], JObject [(''keyword'', JString ''b'')]] \<and>
   parse_response_text (truncated_array_text [] [] bracket_items ''{\"keyw'')
     = ParsedText ''[{\"keyword\":\"a]\"},{\"keyword\":\"b\"},{\"keyw'' \<and>
   parse_response_text (truncated_array_text [] [] one_item ''{\"keyword\":\"```[]'')
     = ParsedJson (JArray []) \<and>
   parse_response_text (truncated_array_text [CHR 0x22] [] [] ''{\"'')
     = ParsedJson (JString ''[{'')"
  by code_simp

text \<open>The filter reads the keyword as \<open>JSON.parse\<close> gives it: a keyword that is a
  number too small for a double is zero and its object is dropped, and a key that an
  escape makes differ from \<open>keyword\<close> in one code unit is another key.\<close>

lemma keyword_as_parsed:
  "JSON_parse ''{\"keyword\":1e-400}'' = Some (JObject [(''keyword'', JNumber ''1e-400'')]) \<and>
   \<not> keyword_nonempty (JObject [(''keyword'', JNumber ''1e-400'')]) \<and>
   \<not> has_keyword (Some (JObject [(''keyword'', JNumber ''1e-400'')])) \<and>
   \<not> has_keyword (JSON_parse (''{'' @ [CHR 0x22, CHR 0x5C] @ ''u016beyword'' @ [CHR 0x22] @ '':1}'')) \<and>
   has_keyword (JSON_parse (''{'' @ [CHR 0x22, CHR 0x5C] @ ''u006beyword'' @ [CHR 0x22] @ '':1}''))"
proof -
  have p: "JSON_parse ''{\"keyword\":1e-400}'' = Some (JObject [(''keyword'', JNumber ''1e-400'')])"
    by code_simp
  have f: "keyword_fields (JObject [(''keyword'', JNumber ''1e-400'')]) = [JNumber ''1e-400'']"
    by code_simp
  have z: "\<not> keyword_nonempty (JObject [(''keyword'', JNumber ''1e-400'')])"
    using zero_lexeme_tiny by (simp add: keyword_nonempty_def f)
  have w: "\<not> has_keyword (JSON_parse (''{'' @ [CHR 0x22, CHR 0x5C] @ ''u016beyword'' @ [CHR 0x22] @ '':1}''))"
    by code_simp
  have n: "has_keyword (JSON_parse (''{'' @ [CHR 0x22, CHR 0x5C] @ ''u006beyword'' @ [CHR 0x22] @ '':1}''))"
    by code_simp
  from p z w n show ?thesis by (simp add: has_keyword_nonempty)
qed

end
